theory Spec2Isabelle
  imports Main
begin

section \<open>The remote platform and the process environment\<close>

text \<open>
  The three scripts (\<^verbatim>\<open>current-discovery.py\<close>, \<^verbatim>\<open>scheduled-discovery.py\<close>,
  \<^verbatim>\<open>scheduler.py\<close>) talk to a remote REST interface, sleep, read the wall clock,
  write log lines, print to the console and (in one place) read a line from the console.
  All of this is made explicit in a \<open>world\<close> value that every operation takes and returns.

  Time is counted in whole milliseconds. The clock only moves forward: by the duration of
  each HTTP request and by each sleep. What the remote platform does on its own is not
  owned by the scripts, so it is left arbitrary: for the \<open>k\<close>-th interaction (request or
  sleep) of a run, \<open>fails k\<close> says whether the request ends in a
  \<^verbatim>\<open>RequestException\<close> (connection error or non-2xx status), \<open>delay k\<close> how much
  longer than asked the interaction takes, and \<open>engine k\<close> which state and status the
  platform reports for each task from then on. The configuration of a task (scan mode,
  view, network list, ping parameters) is only changed by a successful full update.

  Responses are taken to be well formed: a response that arrives is JSON, every listed
  object has its \<^verbatim>\<open>_ref\<close>, and a state, when present, is a string. A log line is
  recorded by its level and its format string (the arguments are left out), a printed
  line by its full text. The \<open>trace\<close> of a world lists, oldest first, everything the run
  has done so far that can be seen from outside.
\<close>

datatype level = INFO | WARNING | ERROR

datatype action = END | START

record payload =
  p_mode :: string
  p_network_view :: string
  p_networks :: "string list"
  p_ping_retries :: int
  p_ping_timeout :: int

datatype request =
    GetTasks
  | GetTaskStatus
  | GetNetworks
  | GetNetworkByCidr string string
  | PostControl string action
  | PutTask string payload

datatype event =
    Http request bool
  | Sleep nat
  | Log level string
  | Print string
  | Input string

text \<open>A task object as the platform stores it, and as a listing returns it.\<close>

record task =
  t_ref :: string
  t_oid :: string
  t_config :: payload

record task_json =
  j_ref :: string
  j_oid :: string
  j_state :: "string option"
  j_status :: "string option"

text \<open>A network object of the inventory; \<open>n_discovery\<close> is the value of the
  \<^verbatim>\<open>Network_Discovery\<close> extensible attribute, when the object has one.\<close>

record network =
  n_ref :: string
  n_cidr :: string
  n_view :: string
  n_discovery :: "string option"

record world =
  now :: nat
  era :: nat
  fails :: "nat \<Rightarrow> bool"
  delay :: "nat \<Rightarrow> nat"
  engine :: "nat \<Rightarrow> string \<Rightarrow> string option \<times> string option"
  states :: "string \<Rightarrow> string option \<times> string option"
  tasks :: "task list"
  inventory :: "network list"
  stdin :: "string list"
  trace :: "event list"

definition seconds :: "nat \<Rightarrow> nat" where
  "seconds n = 1000 * n"

definition emit :: "event \<Rightarrow> world \<Rightarrow> world" where
  "emit e w = w\<lparr>trace := trace w @ [e]\<rparr>"

definition logging_info :: "string \<Rightarrow> world \<Rightarrow> world" where
  "logging_info fmt w = emit (Log INFO fmt) w"

definition logging_warning :: "string \<Rightarrow> world \<Rightarrow> world" where
  "logging_warning fmt w = emit (Log WARNING fmt) w"

definition logging_error :: "string \<Rightarrow> world \<Rightarrow> world" where
  "logging_error fmt w = emit (Log ERROR fmt) w"

definition print :: "string \<Rightarrow> world \<Rightarrow> world" where
  "print s w = emit (Print s) w"

text \<open>One interaction with the outside: the clock advances and the platform moves on.\<close>

definition interact :: "nat \<Rightarrow> world \<Rightarrow> world" where
  "interact d w =
     w\<lparr>now := now w + d + delay w (era w), states := engine w (era w), era := Suc (era w)\<rparr>"

definition time_time :: "world \<Rightarrow> nat" where
  "time_time w = now w"

definition time_sleep :: "nat \<Rightarrow> world \<Rightarrow> world" where
  "time_sleep d w = emit (Sleep d) (interact d w)"

text \<open>The effect of a successful request on the platform: a \<^verbatim>\<open>PUT\<close> on a task
  reference replaces the five fields of the payload; nothing else is stored.\<close>

definition put_task :: "string \<Rightarrow> payload \<Rightarrow> task \<Rightarrow> task" where
  "put_task r p t = (if t_ref t = r then t\<lparr>t_config := p\<rparr> else t)"

fun effect :: "request \<Rightarrow> world \<Rightarrow> world" where
  "effect (PutTask r p) w = w\<lparr>tasks := map (put_task r p) (tasks w)\<rparr>"
| "effect _ w = w"

text \<open>\<^verbatim>\<open>requests.get/post/put\<close> followed by \<^verbatim>\<open>raise_for_status()\<close>: the boolean is
  \<open>False\<close> when a \<^verbatim>\<open>RequestException\<close> is raised.\<close>

definition http :: "request \<Rightarrow> world \<Rightarrow> bool \<times> world" where
  "http rq w =
     (let ok = \<not> fails w (era w);
          w1 = interact 0 w;
          w2 = (if ok then effect rq w1 else w1)
      in (ok, emit (Http rq ok) w2))"

definition list_tasks :: "world \<Rightarrow> task_json list" where
  "list_tasks w =
     map (\<lambda>t. \<lparr>j_ref = t_ref t, j_oid = t_oid t,
                j_state = fst (states w (t_ref t)), j_status = snd (states w (t_ref t))\<rparr>)
         (tasks w)"

section \<open>Strings\<close>

text \<open>State names and console answers are ASCII; \<^verbatim>\<open>str.upper\<close>, \<^verbatim>\<open>str.lower\<close> and
  \<^verbatim>\<open>str.strip\<close> are modelled on ASCII.\<close>

definition upper_char :: "char \<Rightarrow> char" where
  "upper_char c =
     (case map_of (zip ''abcdefghijklmnopqrstuvwxyz'' ''ABCDEFGHIJKLMNOPQRSTUVWXYZ'') c of
        Some u \<Rightarrow> u
      | None \<Rightarrow> c)"

definition lower_char :: "char \<Rightarrow> char" where
  "lower_char c =
     (case map_of (zip ''ABCDEFGHIJKLMNOPQRSTUVWXYZ'' ''abcdefghijklmnopqrstuvwxyz'') c of
        Some l \<Rightarrow> l
      | None \<Rightarrow> c)"

definition upper :: "string \<Rightarrow> string" where
  "upper s = map upper_char s"

definition lower :: "string \<Rightarrow> string" where
  "lower s = map lower_char s"

definition is_space :: "char \<Rightarrow> bool" where
  "is_space c = (of_char c \<in> set [9, 10, 11, 12, 13, 28, 29, 30, 31, 32 :: nat])"

definition strip :: "string \<Rightarrow> string" where
  "strip s = rev (dropWhile is_space (rev (dropWhile is_space s)))"

definition endswith :: "string \<Rightarrow> string \<Rightarrow> bool" where
  "endswith s suf = (length suf \<le> length s \<and> drop (length s - length suf) s = suf)"

section \<open>Operations shared by the scripts\<close>

text \<open>\<^verbatim>\<open>filter_by_view\<close> (the same text in \<^verbatim>\<open>current-discovery.py\<close> and
  \<^verbatim>\<open>scheduled-discovery.py\<close>).\<close>

definition filter_by_view :: "string list \<Rightarrow> string \<Rightarrow> string list" where
  "filter_by_view network_refs desired_view =
     (let suf = ''/'' @ desired_view
      in filter (\<lambda>r. endswith r suf) network_refs)"

definition truthy :: "string option \<Rightarrow> bool" where
  "truthy x = (case x of None \<Rightarrow> False | Some s \<Rightarrow> s \<noteq> [])"

definition active_states :: "string list" where
  "active_states = [''RUNNING'', ''PAUSED'', ''END_PENDING'']"

text \<open>\<^verbatim>\<open>state and state.upper() in ("RUNNING", "PAUSED", "END_PENDING")\<close>\<close>

definition is_active :: "string option \<Rightarrow> bool" where
  "is_active state =
     (case state of None \<Rightarrow> False | Some s \<Rightarrow> s \<noteq> [] \<and> upper s \<in> set active_states)"

text \<open>\<^verbatim>\<open>state and state.upper() not in ("RUNNING", "PAUSED", "END_PENDING")\<close>\<close>

definition has_stopped :: "string option \<Rightarrow> bool" where
  "has_stopped state =
     (case state of None \<Rightarrow> False | Some s \<Rightarrow> s \<noteq> [] \<and> upper s \<notin> set active_states)"

text \<open>\<^verbatim>\<open>get_current_discovery_status\<close> of \<^verbatim>\<open>current-discovery.py\<close>; the same text is
  \<^verbatim>\<open>get_discovery_task_status\<close> in the two other scripts.\<close>

definition get_current_discovery_status ::
  "string \<Rightarrow> world \<Rightarrow> (string option \<times> string option) \<times> world" where
  "get_current_discovery_status task_ref w =
     (let (ok, w1) = http GetTaskStatus w
      in if \<not> ok
         then ((None, None), logging_error ''Error retrieving discovery task status: %s'' w1)
         else (case find (\<lambda>t. j_ref t = task_ref) (list_tasks w1) of
                 Some t \<Rightarrow> ((j_state t, j_status t), w1)
               | None \<Rightarrow> ((None, None), w1)))"

definition get_discovery_task_status ::
  "string \<Rightarrow> world \<Rightarrow> (string option \<times> string option) \<times> world" where
  "get_discovery_task_status = get_current_discovery_status"

text \<open>\<^verbatim>\<open>get_discovery_enabled_networks\<close> (all three scripts).\<close>

definition get_discovery_enabled_networks :: "world \<Rightarrow> string list \<times> world" where
  "get_discovery_enabled_networks w =
     (let (ok, w1) = http GetNetworks w
      in if \<not> ok
         then ([], logging_error ''Error retrieving network objects: %s'' w1)
         else (let found = map n_ref (filter (\<lambda>n. n_discovery n = Some ''True'') (inventory w1))
               in (found, logging_info ''Found %d networks with Network_Discovery=True'' w1)))"

text \<open>\<^verbatim>\<open>get_network_ref\<close> (\<^verbatim>\<open>current-discovery.py\<close>, \<^verbatim>\<open>scheduled-discovery.py\<close>); the
  platform answers the query with the objects of that network and view.\<close>

definition get_network_ref :: "string \<Rightarrow> string \<Rightarrow> world \<Rightarrow> string option \<times> world" where
  "get_network_ref network_cidr network_view w =
     (let (ok, w1) = http (GetNetworkByCidr network_cidr network_view) w
      in if \<not> ok
         then (None, logging_error ''Error retrieving network ref for %s: %s'' w1)
         else (case filter (\<lambda>n. n_cidr n = network_cidr \<and> n_view n = network_view) (inventory w1) of
                 n # _ \<Rightarrow> (Some (n_ref n),
                            logging_info ''Found network ref for %s in view '%s': %s'' w1)
               | [] \<Rightarrow> (None,
                         logging_error ''No network object found for network: %s in view: %s'' w1)))"

section \<open>current-discovery.py\<close>

definition get_current_discovery_ref :: "world \<Rightarrow> string option \<times> world" where
  "get_current_discovery_ref w =
     (let (ok, w1) = http GetTasks w
      in if \<not> ok
         then (None, logging_error ''Error retrieving discovery tasks: %s'' w1)
         else (case find (\<lambda>t. j_oid t = ''current'') (list_tasks w1) of
                 Some t \<Rightarrow> (Some (j_ref t),
                             logging_info ''Found current discovery task ref: %s'' w1)
               | None \<Rightarrow> (None, logging_warning ''No current discovery task found.'' w1)))"

definition stop_current_discovery_task :: "string \<Rightarrow> world \<Rightarrow> bool \<times> world" where
  "stop_current_discovery_task task_ref w =
     (let w0 = logging_info ''Stopping current discovery (END): %s'' w;
          (ok, w1) = http (PostControl task_ref END) w0
      in if \<not> ok
         then (False, logging_error ''Error ending current discovery: %s'' w1)
         else (True,
               logging_info ''Current discovery ended successfully. HTTP response code: %d'' w1))"

text \<open>The loop of \<^verbatim>\<open>wait_for_discovery_to_stop\<close>. It need not return (an interval of
  zero against a platform that answers at once), so it is a partial function: \<open>None\<close>
  is a loop that runs forever.\<close>

partial_function (option) wait_loop ::
  "string \<Rightarrow> nat \<Rightarrow> nat \<Rightarrow> nat \<Rightarrow> world \<Rightarrow> (bool \<times> world) option" where
  "wait_loop task_ref start_time timeout interval w =
     (if int (time_time w) - int start_time < int timeout
      then (let (st, w1) = get_current_discovery_status task_ref w
            in if has_stopped (fst st)
               then Some (True, w1)
               else wait_loop task_ref start_time timeout interval
                      (time_sleep interval
                         (logging_info ''Waiting for discovery to stop. Current state: %s'' w1)))
      else Some (False, w))"

definition wait_for_discovery_to_stop ::
  "string \<Rightarrow> nat \<Rightarrow> nat \<Rightarrow> world \<Rightarrow> (bool \<times> world) option" where
  "wait_for_discovery_to_stop task_ref timeout interval w =
     (let start_time = time_time w
      in wait_loop task_ref start_time timeout interval w)"

text \<open>\<^verbatim>\<open>update_current_discovery_task\<close>; the global \<^verbatim>\<open>desired_view\<close>, set by
  \<^verbatim>\<open>main\<close>, is the first argument.\<close>

definition update_current_discovery_task ::
  "string \<Rightarrow> string \<Rightarrow> string list \<Rightarrow> string \<Rightarrow> int \<Rightarrow> int \<Rightarrow> world \<Rightarrow> bool \<times> world" where
  "update_current_discovery_task desired_view task_ref network_refs mode ping_retries ping_timeout w =
     (let pl = \<lparr>p_mode = mode, p_network_view = desired_view, p_networks = network_refs,
                 p_ping_retries = ping_retries, p_ping_timeout = ping_timeout\<rparr>;
          w0 = logging_info ''Updating current discovery '%s' with %d networks in view '%s'.'' w;
          (ok, w1) = http (PutTask task_ref pl) w0
      in if ok
         then (True, logging_info ''Current discovery updated successfully. HTTP code: %d'' w1)
         else (False,
               logging_error ''Error updating current discovery with new networks: %s'' w1))"

text \<open>\<^verbatim>\<open>start_current_discovery_task\<close>, from the comment \<^verbatim>\<open># Now start a new discovery\<close>
  to its end (lines 291 to 310).\<close>

definition start_new_discovery :: "string \<Rightarrow> world \<Rightarrow> bool \<times> world" where
  "start_new_discovery task_ref w =
     (let w0 = logging_info ''Starting current discovery: %s'' w;
          (ok, w1) = http (PostControl task_ref START) w0
      in if \<not> ok
         then (False, logging_error ''Error starting current discovery: %s'' w1)
         else (let w2 = logging_info
                          ''Current discovery started successfully. HTTP response code: %d'' w1;
                   w3 = time_sleep (seconds 5) w2;
                   (st, w4) = get_current_discovery_status task_ref w3;
                   new_state = fst st
               in if truthy new_state \<and> map_option upper new_state = Some ''RUNNING''
                  then (True, logging_info ''Current discovery is now RUNNING.'' w4)
                  else (False,
                        logging_error ''Current discovery failed to start. Final state: %s'' w4)))"

definition start_current_discovery_task :: "string \<Rightarrow> world \<Rightarrow> (bool \<times> world) option" where
  "start_current_discovery_task task_ref w =
     (let (st, w1) = get_current_discovery_status task_ref w;
          state = fst st
      in if is_active state
         then (let w2 = logging_info ''Current discovery is %s; attempting to end it.'' w1;
                   (ended, w3) = stop_current_discovery_task task_ref w2
               in if \<not> ended
                  then Some (False, logging_error ''Failed to end the current discovery task.'' w3)
                  else (case wait_for_discovery_to_stop task_ref (seconds 60) (seconds 5) w3 of
                          None \<Rightarrow> None
                        | Some (converged, w4) \<Rightarrow>
                            if \<not> converged
                            then Some (False,
                                       logging_error ''Timed out waiting for discovery to end.'' w4)
                            else Some (start_new_discovery task_ref w4)))
         else Some (start_new_discovery task_ref
                      (logging_info ''Current discovery state is '%s'. Proceeding to start.'' w1)))"

text \<open>\<^verbatim>\<open>input(prompt)\<close>: the prompt is written, the run blocks until the operator
  answers (time passes), and the next line of the console is returned; at end of input
  Python raises \<^verbatim>\<open>EOFError\<close>.\<close>

datatype exn = EOFError

definition input :: "string \<Rightarrow> world \<Rightarrow> (exn + string) \<times> world" where
  "input prompt w =
     (let w1 = emit (Input prompt) (interact 0 w)
      in case stdin w1 of
           [] \<Rightarrow> (Inl EOFError, w1)
         | l # ls \<Rightarrow> (Inr l, w1\<lparr>stdin := ls\<rparr>))"

definition prompt_overwrite :: "bool \<Rightarrow> world \<Rightarrow> (exn + bool) \<times> world" where
  "prompt_overwrite force w =
     (if force then (Inr True, w)
      else (case input
              ''Current discovery is running or paused. Do you want to stop it and run a new discovery? (y/n): ''
              w of
              (Inl e, w1) \<Rightarrow> (Inl e, w1)
            | (Inr answer, w1) \<Rightarrow> (Inr (lower (strip answer) = ''y''), w1)))"

text \<open>\<^verbatim>\<open>main\<close> of \<^verbatim>\<open>current-discovery.py\<close>, from the retrieval of the networks
  (line 349) to its end. The result is \<open>Inr ()\<close> when \<^verbatim>\<open>main\<close> returns and
  \<open>Inl e\<close> when it ends by the exception \<open>e\<close>.\<close>

definition main_update :: "string \<Rightarrow> string \<Rightarrow> world \<Rightarrow> ((exn + unit) \<times> world) option" where
  "main_update desired_view current_ref w =
     (let (discovered, w1) = get_discovery_enabled_networks w;
          (networks, w2) =
             (if discovered \<noteq> []
              then (let filtered = filter_by_view discovered desired_view
                    in if filtered \<noteq> []
                       then (filtered,
                             logging_info
                               ''After filtering by view '%s', %d networks remain out of %d discovered.''
                               w1)
                       else ([],
                             logging_info ''Discovered %d networks, but none match view '%s'.'' w1))
              else ([], logging_info ''No networks found with Network_Discovery=True.'' w1))
      in if networks = []
         then Some (Inr (),
                    print (''No networks found matching view '' @ [CHR 0x27] @ desired_view
                            @ [CHR 0x27] @ ''. Update skipped.'') w2)
         else (let (success, w3) =
                     update_current_discovery_task desired_view current_ref networks
                       ''ICMP'' 5 1500 w2
               in if \<not> success
                  then Some (Inr (),
                             print ''An error occurred while updating the current discovery. Please check discovery.log.''
                               w3)
                  else (case start_current_discovery_task current_ref w3 of
                          None \<Rightarrow> None
                        | Some (started, w4) \<Rightarrow>
                            (let w5 = (if started
                                       then print ''Current discovery started successfully.'' w4
                                       else print ''An error occurred while starting current discovery. Please check discovery.log.''
                                              w4);
                                 (st, w6) = get_current_discovery_status current_ref w5;
                                 state = fst st;
                                 w7 = (if truthy state
                                       then print (''Final Current Discovery State: '' @ the state)
                                              (logging_info ''Final Current Discovery State: %s'' w6)
                                       else print ''Could not retrieve final discovery status. Check discovery.log for details.''
                                              (logging_warning
                                                 ''Could not retrieve final status for the current discovery task.''
                                                 w6))
                             in Some (Inr (),
                                      logging_info
                                        ''CURRENT_DISCOVERY_SCRIPT: Script finished successfully.''
                                        w7)))))"

text \<open>\<^verbatim>\<open>main\<close> of \<^verbatim>\<open>current-discovery.py\<close>; the parsed arguments
  \<^verbatim>\<open>--network_view\<close> and \<^verbatim>\<open>--force\<close> are its parameters.\<close>

definition main_current :: "string \<Rightarrow> bool \<Rightarrow> world \<Rightarrow> ((exn + unit) \<times> world) option" where
  "main_current network_view force w =
     (let w0 = logging_info ''CURRENT_DISCOVERY_SCRIPT: Script started.'' w;
          desired_view = network_view;
          force_overwrite = force;
          (current_ref, w1) = get_current_discovery_ref w0
      in if \<not> truthy current_ref
         then Some (Inr (),
                    print ''Could not find 'current' discovery reference. Check discovery.log for details.''
                      w1)
         else (let (st, w2) = get_current_discovery_status (the current_ref) w1;
                   state = fst st
               in if truthy state
                  then (let w3 = print (''Current discovery state: '' @ the state)
                                   (logging_info ''Current discovery state: %s'' w2)
                        in if upper (the state) \<in> set active_states
                           then (case prompt_overwrite force_overwrite w3 of
                                   (Inl e, w4) \<Rightarrow> Some (Inl e, w4)
                                 | (Inr go, w4) \<Rightarrow>
                                     if \<not> go
                                     then Some (Inr (),
                                                print ''Aborting update. Current discovery is still running/paused.''
                                                  w4)
                                     else main_update desired_view (the current_ref) w4)
                           else main_update desired_view (the current_ref) w3)
                  else main_update desired_view (the current_ref)
                         (logging_warning
                            ''Could not retrieve status for current discovery. Proceeding with update...''
                            w2)))"

section \<open>scheduled-discovery.py\<close>

text \<open>The two configuration values the script keeps in globals:
  \<^verbatim>\<open>SCHEDULED_DISCOVERY_NETWORK_VIEW\<close> and \<^verbatim>\<open>SCHEDULED_DISCOVERY_DEFAULT_NETWORK\<close>
  (empty when no fallback is configured).\<close>

record config =
  cfg_network_view :: string
  cfg_default_network :: string

text \<open>\<^verbatim>\<open>get_scheduled_discovery_ref\<close> (the same in \<^verbatim>\<open>scheduler.py\<close>).\<close>

definition get_scheduled_discovery_ref :: "world \<Rightarrow> string option \<times> world" where
  "get_scheduled_discovery_ref w =
     (let (ok, w1) = http GetTasks w
      in if \<not> ok
         then (None, logging_error ''Error retrieving discovery tasks: %s'' w1)
         else (case find (\<lambda>t. j_oid t = ''scheduled'') (list_tasks w1) of
                 Some t \<Rightarrow> (Some (j_ref t),
                             logging_info ''Found scheduled discovery task ref: %s'' w1)
               | None \<Rightarrow> (None, logging_warning ''No scheduled discovery task found.'' w1)))"

definition update_scheduled_discovery_task ::
  "config \<Rightarrow> string \<Rightarrow> string list \<Rightarrow> string \<Rightarrow> int \<Rightarrow> int \<Rightarrow> world \<Rightarrow> bool \<times> world" where
  "update_scheduled_discovery_task cfg task_ref network_refs mode ping_retries ping_timeout w =
     (let pl = \<lparr>p_mode = mode, p_network_view = cfg_network_view cfg,
                 p_networks = network_refs,
                 p_ping_retries = ping_retries, p_ping_timeout = ping_timeout\<rparr>;
          w0 = logging_info
                 ''Overwriting scheduled discovery '%s' with %d networks in view '%s'.'' w;
          (ok, w1) = http (PutTask task_ref pl) w0
      in if ok
         then (True,
               logging_info ''Scheduled discovery updated successfully. HTTP code: %d'' w1)
         else (False,
               logging_error ''Error updating scheduled discovery with new networks: %s'' w1))"

text \<open>\<^verbatim>\<open>main\<close> of \<^verbatim>\<open>scheduled-discovery.py\<close>, steps 3 and 4 (lines 281 to 294): the
  update with the selected networks and the final state read.\<close>

definition main_scheduled_update :: "config \<Rightarrow> string \<Rightarrow> string list \<Rightarrow> world \<Rightarrow> world" where
  "main_scheduled_update cfg scheduled_ref networks w =
     (let (success, w1) =
            update_scheduled_discovery_task cfg scheduled_ref networks ''ICMP'' 5 1500 w
      in if \<not> success
         then print ''An error occurred while updating the scheduled discovery. Please check discovery.log.''
                w1
         else (let (st, w2) = get_discovery_task_status scheduled_ref w1;
                   state = fst st
               in if truthy state
                  then print (''Scheduled Discovery State: '' @ the state)
                         (logging_info ''Scheduled Discovery State: %s'' w2)
                  else print ''Could not retrieve scheduled discovery status. Check discovery.log for details.''
                         (logging_warning
                            ''Could not retrieve state/status for the scheduled task.'' w2)))"

text \<open>\<^verbatim>\<open>main\<close> of \<^verbatim>\<open>scheduled-discovery.py\<close>.\<close>

definition main_scheduled :: "config \<Rightarrow> world \<Rightarrow> world" where
  "main_scheduled cfg w =
     (let (scheduled_ref, w1) = get_scheduled_discovery_ref w
      in if \<not> truthy scheduled_ref
         then print ''Could not find 'scheduled' discovery reference. Check discovery.log for details.''
                w1
         else (let (discovered, w2) = get_discovery_enabled_networks w1;
                   (networks, w3) =
                      (if discovered \<noteq> []
                       then (let filtered = filter_by_view discovered (cfg_network_view cfg)
                             in if filtered \<noteq> []
                                then (filtered,
                                      logging_info
                                        ''After filtering by view '%s', %d networks remain out of %d discovered.''
                                        w2)
                                else ([],
                                      logging_info
                                        ''Discovered %d networks, but none match view '%s'. Will fallback if configured.''
                                        w2))
                       else ([], logging_info ''No networks found with Network_Discovery=True.'' w2))
               in if networks = []
                  then (if cfg_default_network cfg \<noteq> []
                        then (let (fallback_ref, w4) =
                                    get_network_ref (cfg_default_network cfg)
                                      (cfg_network_view cfg) w3
                              in if truthy fallback_ref
                                 then main_scheduled_update cfg (the scheduled_ref)
                                        [the fallback_ref]
                                        (logging_info ''Using fallback network ref '%s' instead.'' w4)
                                 else print ''Fallback network not found; update skipped. Check discovery.log for details.''
                                        (logging_error ''Fallback network '%s' not found in view '%s'.''
                                           w4))
                        else print ''No networks found; no fallback specified; update skipped.''
                               (logging_info
                                  ''No networks found and no fallback network specified. Nothing to update.''
                                  w3))
                  else main_scheduled_update cfg (the scheduled_ref) networks w3))"

section \<open>scheduler.py\<close>

text \<open>\<^verbatim>\<open>update_scheduled_discovery_task\<close> of \<^verbatim>\<open>scheduler.py\<close>. The value returned is
  Python's \<^verbatim>\<open>None\<close> on both paths: the function ends without a \<^verbatim>\<open>return\<close> value
  after a successful request and by a bare \<^verbatim>\<open>return\<close> after a failed one.\<close>

definition scheduler_update_scheduled_discovery_task ::
  "string \<Rightarrow> string list \<Rightarrow> string \<Rightarrow> int \<Rightarrow> int \<Rightarrow> world \<Rightarrow> bool option \<times> world" where
  "scheduler_update_scheduled_discovery_task task_ref network_refs mode ping_retries ping_timeout w =
     (let pl = \<lparr>p_mode = mode, p_network_view = ''GLOBAL'', p_networks = network_refs,
                 p_ping_retries = ping_retries, p_ping_timeout = ping_timeout\<rparr>;
          w0 = logging_info ''Overwriting scheduled discovery '%s' with %d networks.'' w;
          (ok, w1) = http (PutTask task_ref pl) w0
      in if ok
         then (None,
               logging_info ''Scheduled discovery updated successfully. HTTP code: %d'' w1)
         else (None,
               logging_error ''Error updating scheduled discovery with new networks: %s'' w1))"

text \<open>\<^verbatim>\<open>start_scheduled_discovery_task\<close> of \<^verbatim>\<open>scheduler.py\<close> (its only call, in
  \<^verbatim>\<open>main\<close>, is commented out).\<close>

definition start_scheduled_discovery_task :: "string \<Rightarrow> world \<Rightarrow> bool option \<times> world" where
  "start_scheduled_discovery_task task_ref w =
     (let w0 = logging_info ''Starting scheduled discovery: %s'' w;
          (ok, w1) = http (PostControl task_ref START) w0
      in if \<not> ok
         then (None, logging_error ''Error starting scheduled discovery task: %s'' w1)
         else (None,
               logging_info
                 ''Scheduled discovery STARTED successfully. HTTP response code: %d'' w1))"

text \<open>\<^verbatim>\<open>main\<close> of \<^verbatim>\<open>scheduler.py\<close>. The script reads the same configuration file but
  uses only the endpoint and the credentials of it; the configuration is a parameter
  here to make that visible.\<close>

definition main_scheduler :: "config \<Rightarrow> world \<Rightarrow> world" where
  "main_scheduler cfg w =
     (let (scheduled_ref, w1) = get_scheduled_discovery_ref w
      in if \<not> truthy scheduled_ref
         then print ''Could not find 'scheduled' discovery reference. Check discovery.log for details.''
                w1
         else (let (networks, w2) = get_discovery_enabled_networks w1;
                   w3 = (if networks \<noteq> []
                         then snd (scheduler_update_scheduled_discovery_task (the scheduled_ref)
                                     networks ''ICMP'' 5 1500 w2)
                         else logging_info
                                ''No networks found to update for the scheduled discovery task.'' w2);
                   (st, w4) = get_discovery_task_status (the scheduled_ref) w3;
                   state = fst st
               in if truthy state
                  then logging_info ''Scheduled Discovery State: %s'' w4
                  else logging_warning ''Could not retrieve state/status for the scheduled task.''
                         w4))"

section \<open>The polling schedule\<close>

text \<open>The \<open>n\<close>-th poll of a wait that starts in world \<open>w\<close> (counting from zero) is the
  interaction number \<open>era w + 2 * n\<close> (each round is one request and one sleep).
  \<open>poll_time\<close> is the clock reading at which it is begun: \<open>n\<close> sleeps of the interval
  after the start, plus what the requests and sleeps before it took. \<open>state_read\<close> is
  the state that a status request made as interaction \<open>k\<close> reads: nothing when the request
  fails, when the task is not listed or when the platform reports no state for it;
  \<open>poll_obs\<close> is the state the \<open>n\<close>-th poll reads.\<close>

definition poll_time :: "world \<Rightarrow> nat \<Rightarrow> nat \<Rightarrow> nat" where
  "poll_time w interval n =
     now w + n * interval + sum_list (map (\<lambda>j. delay w (era w + j)) [0..<2 * n])"

section \<open>Events of a run\<close>

text \<open>The events a run adds to the trace, and the kinds of event the claims speak of: a
  \<^verbatim>\<open>START\<close> action, any call that changes the task (a control action or a full
  update).\<close>

fun is_start :: "event \<Rightarrow> bool" where
  "is_start (Http (PostControl r START) ok) = True"
| "is_start _ = False"

fun is_change :: "event \<Rightarrow> bool" where
  "is_change (Http (PostControl r a) ok) = True"
| "is_change (Http (PutTask r p) ok) = True"
| "is_change _ = False"

text \<open>The full updates issued (task reference and payload) and the lines printed to the
  console, in order.\<close>

fun puts :: "event list \<Rightarrow> (string \<times> payload) list" where
  "puts [] = []"
| "puts (Http (PutTask r p) ok # es) = (r, p) # puts es"
| "puts (e # es) = puts es"

fun prints :: "event list \<Rightarrow> string list" where
  "prints [] = []"
| "prints (Print m # es) = m # prints es"
| "prints (e # es) = prints es"

definition new_events :: "world \<Rightarrow> world \<Rightarrow> event list" where
  "new_events w w' = drop (length (trace w)) (trace w')"

text \<open>The events of one state read made as interaction \<open>k\<close>.\<close>

definition status_events :: "world \<Rightarrow> nat \<Rightarrow> event list" where
  "status_events w k =
     Http GetTaskStatus (\<not> fails w k)
     # (if fails w k then [Log ERROR ''Error retrieving discovery task status: %s''] else [])"

text \<open>The events of the first \<open>n\<close> rounds of a wait that starts in world \<open>w\<close>: each
  round is a state read, the log line and a sleep of the interval.\<close>

primrec wait_events :: "world \<Rightarrow> nat \<Rightarrow> nat \<Rightarrow> event list" where
  "wait_events w interval 0 = []"
| "wait_events w interval (Suc n) =
     wait_events w interval n
     @ status_events w (era w + 2 * n)
     @ [Log INFO ''Waiting for discovery to stop. Current state: %s'', Sleep interval]"

text \<open>Between two worlds nothing was asked of the platform but reads: the platform's
  behaviour, the task configurations, the inventory and the console input are the same,
  and the trace grew by events that change nothing.\<close>

definition same_platform :: "world \<Rightarrow> world \<Rightarrow> bool" where
  "same_platform w w' \<longleftrightarrow>
     fails w' = fails w \<and> delay w' = delay w \<and> engine w' = engine w \<and> tasks w' = tasks w
     \<and> inventory w' = inventory w \<and> stdin w' = stdin w"

definition only_reads :: "world \<Rightarrow> world \<Rightarrow> bool" where
  "only_reads w w' \<longleftrightarrow>
     same_platform w w'
     \<and> (\<exists>es. trace w' = trace w @ es \<and> \<not> list_ex is_change es \<and> prints es = [])"

text \<open>A stretch of a run without a full update and without console output.\<close>

definition quiet_run :: "world \<Rightarrow> world \<Rightarrow> bool" where
  "quiet_run w w' \<longleftrightarrow>
     same_platform w w' \<and> (\<exists>es. trace w' = trace w @ es \<and> puts es = [] \<and> prints es = [])"

text \<open>The requests issued, each with its outcome, in order.\<close>

fun https :: "event list \<Rightarrow> (request \<times> bool) list" where
  "https [] = []"
| "https (Http rq ok # es) = (rq, ok) # https es"
| "https (e # es) = https es"

text \<open>The network views of the payloads of the full updates issued, and a stretch of a
  run in which every full update issued carries the view \<open>V\<close>.\<close>

fun views :: "event list \<Rightarrow> string list" where
  "views [] = []"
| "views (Http (PutTask r p) ok # es) = p_network_view p # views es"
| "views (e # es) = views es"

definition puts_view :: "string \<Rightarrow> world \<Rightarrow> world \<Rightarrow> bool" where
  "puts_view V w w' \<longleftrightarrow> (\<exists>es. trace w' = trace w @ es \<and> set (views es) \<subseteq> {V})"

text \<open>What a lookup of the task with a given role finds, and what a lookup of a network
  by CIDR and view finds, when made as the next interaction.\<close>

definition found_task :: "string \<Rightarrow> world \<Rightarrow> string option" where
  "found_task oid w =
     (if fails w (era w) then None
      else map_option t_ref (find (\<lambda>t. t_oid t = oid) (tasks w)))"

definition found_network :: "string \<Rightarrow> string \<Rightarrow> world \<Rightarrow> string option" where
  "found_network cidr view w =
     (if fails w (era w) then None
      else (case filter (\<lambda>n. n_cidr n = cidr \<and> n_view n = view) (inventory w) of
              [] \<Rightarrow> None
            | n # _ \<Rightarrow> Some (n_ref n)))"

text \<open>A platform with one task that reports \<^verbatim>\<open>RUNNING\<close> for its first six
  interactions and \<^verbatim>\<open>COMPLETE\<close> afterwards; every request takes 200 ms.\<close>

definition demo_task :: task where
  "demo_task =
     \<lparr>t_ref = ''discoverytask/current'', t_oid = ''current'',
      t_config = \<lparr>p_mode = ''ICMP'', p_network_view = ''default'',
                  p_networks = [''network/old/default''],
                  p_ping_retries = 5, p_ping_timeout = 1500\<rparr>\<rparr>"

definition demo_world :: world where
  "demo_world =
     \<lparr>now = 0, era = 0, fails = (\<lambda>k. False), delay = (\<lambda>k. 200),
      engine = (\<lambda>k r. if k < 6 then (Some ''RUNNING'', Some ''Running'')
                      else (Some ''COMPLETE'', None)),
      states = (\<lambda>r. (Some ''RUNNING'', None)),
      tasks = [demo_task], inventory = [], stdin = [], trace = []\<rparr>"


definition state_read :: "string \<Rightarrow> world \<Rightarrow> nat \<Rightarrow> string option" where
  "state_read task_ref w k =
     (if fails w k \<or> find (\<lambda>t. t_ref t = task_ref) (tasks w) = None then None
      else fst (engine w k task_ref))"

definition poll_obs :: "string \<Rightarrow> world \<Rightarrow> nat \<Rightarrow> string option" where
  "poll_obs task_ref w n = state_read task_ref w (era w + 2 * n)"

text \<open>One round of the loop that goes on: the state read, the log line, the sleep.\<close>

definition poll_step :: "string \<Rightarrow> nat \<Rightarrow> world \<Rightarrow> world" where
  "poll_step task_ref interval w =
     time_sleep interval
       (logging_info ''Waiting for discovery to stop. Current state: %s''
          (snd (get_current_discovery_status task_ref w)))"

text \<open>A platform that cannot be reached: every request fails.\<close>

definition dark_world :: world where
  "dark_world = demo_world\<lparr>fails := (\<lambda>k. True)\<rparr>"

text \<open>A platform on which a full cycle succeeds when begun at once: the task reports
  \<^verbatim>\<open>COMPLETE\<close> at its fifth interaction and \<^verbatim>\<open>RUNNING\<close> otherwise; the inventory
  has two discovery-enabled networks, one of them in the view \<^verbatim>\<open>default\<close>.\<close>

definition cycle_world :: world where
  "cycle_world =
     demo_world
       \<lparr>engine := (\<lambda>k r. if k = 4 then (Some ''COMPLETE'', None) else (Some ''RUNNING'', None)),
        inventory :=
          [\<lparr>n_ref = ''network/A/default'', n_cidr = ''10.0.0.0/24'', n_view = ''default'',
            n_discovery = Some ''True''\<rparr>,
           \<lparr>n_ref = ''network/B/other'', n_cidr = ''10.0.1.0/24'', n_view = ''other'',
            n_discovery = Some ''True''\<rparr>,
           \<lparr>n_ref = ''network/C/default'', n_cidr = ''10.0.2.0/24'', n_view = ''default'',
            n_discovery = None\<rparr>]\<rparr>"

text \<open>The same platform, with an operator who answers the prompt with \<^verbatim>\<open>N\<close>.\<close>

definition refusing_world :: world where
  "refusing_world = cycle_world\<lparr>stdin := ['' N '']\<rparr>"

text \<open>A platform whose only task is the scheduled one, with one discovery-enabled network
  in the view \<^verbatim>\<open>default\<close> and one network, not discovery-enabled, in the view
  \<^verbatim>\<open>lab\<close>; and a configuration that targets the view \<^verbatim>\<open>lab\<close> with that network
  as fallback.\<close>

definition sched_task :: task where
  "sched_task = demo_task\<lparr>t_ref := ''discoverytask/scheduled'', t_oid := ''scheduled''\<rparr>"

definition sched_world :: world where
  "sched_world =
     demo_world
       \<lparr>tasks := [sched_task],
        inventory :=
          [\<lparr>n_ref = ''network/A/default'', n_cidr = ''10.0.0.0/24'', n_view = ''default'',
            n_discovery = Some ''True''\<rparr>,
           \<lparr>n_ref = ''network/C/lab'', n_cidr = ''192.168.0.0/24'', n_view = ''lab'',
            n_discovery = None\<rparr>]\<rparr>"

definition lab_config :: config where
  "lab_config = \<lparr>cfg_network_view = ''lab'', cfg_default_network = ''192.168.0.0/24''\<rparr>"

text \<open>The same platform, on which the third request of a run fails.\<close>

definition put_fails_world :: world where
  "put_fails_world = sched_world\<lparr>fails := (\<lambda>k. k = 2)\<rparr>"



section \<open>Properties\<close>

lemma endswith_iff: "endswith s suf \<longleftrightarrow> (\<exists>p. s = p @ suf)"
proof
  assume h: "endswith s suf"
  have "s = take (length s - length suf) s @ drop (length s - length suf) s"
    by simp
  with h show "\<exists>p. s = p @ suf"
    unfolding endswith_def by metis
next
  assume "\<exists>p. s = p @ suf"
  then show "endswith s suf"
    by (auto simp: endswith_def)
qed

text \<open>
  C4. For every list of network references and every view \<open>V\<close>, \<open>filter_by_view\<close>
  returns exactly the sublist of the references that end with \<open>/V\<close>, in the input order
  (it is the \<open>filter\<close> of the input by that predicate), and filtering a second time with
  the same view changes nothing.
\<close>

theorem filter_by_view_exact_and_idempotent:
  "filter_by_view refs V = filter (\<lambda>r. \<exists>p. r = p @ ''/'' @ V) refs
   \<and> filter_by_view (filter_by_view refs V) V = filter_by_view refs V"
  by (simp add: filter_by_view_def endswith_iff)

subsection \<open>The wait loop\<close>

lemma find_map_list: "find P (map f xs) = map_option f (find (\<lambda>x. P (f x)) xs)"
  by (induction xs) auto

lemma find_list_tasks:
  "find (\<lambda>t. j_ref t = r) (list_tasks w) =
     map_option (\<lambda>t. \<lparr>j_ref = t_ref t, j_oid = t_oid t,
                j_state = fst (states w (t_ref t)), j_status = snd (states w (t_ref t))\<rparr>)
       (find (\<lambda>t. t_ref t = r) (tasks w))"
  unfolding list_tasks_def by (simp add: find_map_list)

lemma find_holds: "find P xs = Some x \<Longrightarrow> P x"
  by (induction xs) (auto split: if_splits)

lemma status_reads:
  "fst (fst (get_current_discovery_status r w)) = state_read r w (era w)"
  by (auto simp add: get_current_discovery_status_def http_def Let_def find_list_tasks
        state_read_def interact_def emit_def logging_error_def
        split: option.splits dest: find_holds)

lemma status_state:
  "fst (fst (get_current_discovery_status r w)) = poll_obs r w 0"
  by (simp add: status_reads poll_obs_def)

lemma status_world:
  "now (snd (get_current_discovery_status r w)) = now w + delay w (era w)"
  "era (snd (get_current_discovery_status r w)) = Suc (era w)"
  "fails (snd (get_current_discovery_status r w)) = fails w"
  "delay (snd (get_current_discovery_status r w)) = delay w"
  "engine (snd (get_current_discovery_status r w)) = engine w"
  "tasks (snd (get_current_discovery_status r w)) = tasks w"
  by (auto simp: get_current_discovery_status_def http_def Let_def interact_def emit_def
        logging_error_def split: option.splits)

lemma poll_step_world:
  "now (poll_step r i w) = now w + delay w (era w) + i + delay w (Suc (era w))"
  "era (poll_step r i w) = Suc (Suc (era w))"
  "fails (poll_step r i w) = fails w"
  "delay (poll_step r i w) = delay w"
  "engine (poll_step r i w) = engine w"
  "tasks (poll_step r i w) = tasks w"
  by (simp_all add: poll_step_def time_sleep_def interact_def emit_def logging_info_def status_world)

lemma sum_shift_two:
  "(\<Sum>j<Suc (Suc m). f j) = f 0 + f (Suc 0) + (\<Sum>j<m. (f (Suc (Suc j)) :: nat))"
  by (induction m) simp_all

lemma poll_time_sum:
  "poll_time w i n = now w + n * i + (\<Sum>j<2 * n. delay w (era w + j))"
  by (simp add: poll_time_def interv_sum_list_conv_sum_set_nat lessThan_atLeast0)

lemma poll_time_step: "poll_time (poll_step r i w) i n = poll_time w i (Suc n)"
proof -
  have "(\<Sum>j<Suc (Suc (2 * n)). delay w (era w + j)) =
          delay w (era w) + delay w (Suc (era w)) + (\<Sum>j<2 * n. delay w (Suc (Suc (era w + j))))"
    using sum_shift_two [of "\<lambda>j. delay w (era w + j)" "2 * n"] by simp
  then show ?thesis
    by (simp add: poll_time_sum poll_step_world)
qed

lemma poll_obs_step: "poll_obs r (poll_step r' i w) n = poll_obs r w (Suc n)"
  by (simp add: poll_obs_def state_read_def poll_step_world)

lemma poll_time_mono: "m \<le> n \<Longrightarrow> poll_time w i m \<le> poll_time w i n"
proof -
  assume h: "m \<le> n"
  then have "{..<2 * m} \<subseteq> {..<2 * n}" by auto
  then have "(\<Sum>j<2 * m. delay w (era w + j)) \<le> (\<Sum>j<2 * n. delay w (era w + j))"
    by (intro sum_mono2) auto
  moreover have "m * i \<le> n * i" using h by simp
  ultimately show ?thesis by (simp add: poll_time_sum add_mono)
qed

lemma wait_loop_unfold:
  "wait_loop r s t i w =
     (if int (now w) - int s < int t
      then (if has_stopped (poll_obs r w 0)
            then Some (True, snd (get_current_discovery_status r w))
            else wait_loop r s t i (poll_step r i w))
      else Some (False, w))"
  by (subst wait_loop.simps)
     (simp add: time_time_def poll_step_def status_state[symmetric] split: prod.splits)

lemma wait_loop_result:
  assumes "wait_loop r s t i w = Some y"
  shows "fst y = (\<exists>n. int (poll_time w i n) - int s < int t \<and> has_stopped (poll_obs r w n))"
proof (rule wait_loop.raw_induct
    [where P = "\<lambda>r s t i w y. fst y =
       (\<exists>n. int (poll_time w i n) - int s < int t \<and> has_stopped (poll_obs r w n))", OF _ assms])
  fix wl r s t i w y
  assume 1: "\<And>r s t i w y. wl r s t i w = Some y \<Longrightarrow> fst y =
       (\<exists>n. int (poll_time w i n) - int s < int t \<and> has_stopped (poll_obs r w n))"
    "(if int (time_time w) - int s < int t
      then let (st, w1) = get_current_discovery_status r w
           in if has_stopped (fst st) then Some (True, w1)
              else wl r s t i (time_sleep i
                     (logging_info ''Waiting for discovery to stop. Current state: %s'' w1))
      else Some (False, w)) = Some y"
  let ?Q = "\<lambda>w n. int (poll_time w i n) - int s < int t \<and> has_stopped (poll_obs r w n)"
  show "fst y = (\<exists>n. ?Q w n)"
  proof (cases "int (now w) - int s < int t")
    case False
    have "now w \<le> poll_time w i n" for n
      by (simp add: poll_time_sum)
    then have "\<not> ?Q w n" for n
      using False by (smt (verit) of_nat_le_iff)
    moreover have "y = (False, w)" using 1(2) False by (simp add: time_time_def)
    ultimately show ?thesis by simp
  next
    case True
    show ?thesis
    proof (cases "has_stopped (poll_obs r w 0)")
      case stopped: True
      then have "fst y" using 1(2) True
        by (auto simp: time_time_def status_state[symmetric] split: prod.splits)
      moreover have "?Q w 0" using True stopped by (simp add: poll_time_sum)
      ultimately show ?thesis by blast
    next
      case going: False
      then have "wl r s t i (poll_step r i w) = Some y" using 1(2) True
        by (auto simp: time_time_def poll_step_def status_state[symmetric] split: prod.splits)
      then have "fst y = (\<exists>n. ?Q (poll_step r i w) n)" by (rule 1(1))
      also have "\<dots> = (\<exists>n. ?Q w (Suc n))" by (simp add: poll_time_step poll_obs_step)
      also have "\<dots> = (\<exists>n. ?Q w n)"
      proof
        assume "\<exists>n. ?Q w (Suc n)" then show "\<exists>n. ?Q w n" by blast
      next
        assume "\<exists>n. ?Q w n"
        then obtain n where n: "?Q w n" by blast
        with going have "n \<noteq> 0" by (cases n) auto
        then obtain m where "n = Suc m" by (cases n) auto
        with n show "\<exists>n. ?Q w (Suc n)" by blast
      qed
      finally show ?thesis .
    qed
  qed
qed

lemma wait_loop_false_late:
  assumes "wait_loop r s t i w = Some (False, w')"
  shows "int t \<le> int (now w') - int s"
proof (rule wait_loop.raw_induct
    [where P = "\<lambda>r s t i w y. \<not> fst y \<longrightarrow> int t \<le> int (now (snd y)) - int s",
      OF _ assms, simplified fst_conv snd_conv not_False_eq_True simp_thms])
  fix wl r s t i w y
  assume 1: "\<And>r s t i w y. wl r s t i w = Some y \<Longrightarrow> \<not> fst y \<longrightarrow> int t \<le> int (now (snd y)) - int s"
    "(if int (time_time w) - int s < int t
      then let (st, w1) = get_current_discovery_status r w
           in if has_stopped (fst st) then Some (True, w1)
              else wl r s t i (time_sleep i
                     (logging_info ''Waiting for discovery to stop. Current state: %s'' w1))
      else Some (False, w)) = Some y"
  show "\<not> fst y \<longrightarrow> int t \<le> int (now (snd y)) - int s"
    using 1(2) 1(1)
    by (auto simp: time_time_def split: if_splits prod.splits)
qed

lemma wait_loop_returns:
  "has_stopped (poll_obs r w n) \<or> int t \<le> int (poll_time w i n) - int s \<Longrightarrow>
     \<exists>y. wait_loop r s t i w = Some y"
proof (induction n arbitrary: w)
  case 0
  then show ?case
    by (subst wait_loop_unfold) (auto simp: poll_time_sum)
next
  case (Suc n)
  have "\<exists>y. wait_loop r s t i (poll_step r i w) = Some y"
    using Suc.prems by (intro Suc.IH) (simp add: poll_time_step poll_obs_step)
  then show ?case
    by (subst wait_loop_unfold) auto
qed

lemma poll_time_reaches: "0 < i \<Longrightarrow> now w + t \<le> poll_time w i t"
proof -
  assume "0 < i"
  then have "now w + t \<le> now w + t * i" by simp
  also have "\<dots> \<le> poll_time w i t" by (simp add: poll_time_sum)
  finally show ?thesis .
qed



lemma wait_loop_false_time:
  assumes "wait_loop r s t i w = Some y"
  shows "\<not> fst y \<longrightarrow> (\<exists>n. now (snd y) = poll_time w i n)"
proof (rule wait_loop.raw_induct
    [where P = "\<lambda>r s t i w y. \<not> fst y \<longrightarrow> (\<exists>n. now (snd y) = poll_time w i n)", OF _ assms])
  fix wl r s t i w y
  assume 1: "\<And>r s t i w y. wl r s t i w = Some y \<Longrightarrow>
                \<not> fst y \<longrightarrow> (\<exists>n. now (snd y) = poll_time w i n)"
    "(if int (time_time w) - int s < int t
      then let (st, w1) = get_current_discovery_status r w
           in if has_stopped (fst st) then Some (True, w1)
              else wl r s t i (time_sleep i
                     (logging_info ''Waiting for discovery to stop. Current state: %s'' w1))
      else Some (False, w)) = Some y"
  show "\<not> fst y \<longrightarrow> (\<exists>n. now (snd y) = poll_time w i n)"
  proof (cases "int (time_time w) - int s < int t")
    case False
    with 1(2) have "y = (False, w)" by simp
    moreover have "now w = poll_time w i 0" by (simp add: poll_time_sum)
    ultimately show ?thesis by auto
  next
    case True
    show ?thesis
    proof (cases "has_stopped (poll_obs r w 0)")
      case stopped: True
      then have "fst y" using 1(2) True
        by (auto simp: status_state[symmetric] split: prod.splits)
      then show ?thesis by simp
    next
      case going: False
      then have "wl r s t i (poll_step r i w) = Some y" using 1(2) True
        by (auto simp: poll_step_def status_state[symmetric] split: prod.splits)
      then have "\<not> fst y \<longrightarrow> (\<exists>n. now (snd y) = poll_time (poll_step r i w) i n)"
        by (rule 1(1))
      then show ?thesis by (auto simp: poll_time_step)
    qed
  qed
qed

subsection \<open>Facts about the operations\<close>

lemmas prim_defs = http_def interact_def emit_def logging_info_def logging_error_def
  logging_warning_def print_def time_sleep_def Let_def

lemma log_facts:
  "trace (logging_info m w) = trace w @ [Log INFO m]"
  "trace (logging_warning m w) = trace w @ [Log WARNING m]"
  "trace (logging_error m w) = trace w @ [Log ERROR m]"
  "trace (print m w) = trace w @ [Print m]"
  "era (logging_info m w) = era w" "era (logging_warning m w) = era w"
  "era (logging_error m w) = era w" "era (print m w) = era w"
  "now (logging_info m w) = now w" "now (logging_warning m w) = now w"
  "now (logging_error m w) = now w" "now (print m w) = now w"
  "fails (logging_info m w) = fails w" "fails (logging_warning m w) = fails w"
  "fails (logging_error m w) = fails w" "fails (print m w) = fails w"
  "delay (logging_info m w) = delay w" "delay (logging_warning m w) = delay w"
  "delay (logging_error m w) = delay w" "delay (print m w) = delay w"
  "engine (logging_info m w) = engine w" "engine (logging_warning m w) = engine w"
  "engine (logging_error m w) = engine w" "engine (print m w) = engine w"
  "states (logging_info m w) = states w" "states (logging_warning m w) = states w"
  "states (logging_error m w) = states w" "states (print m w) = states w"
  "tasks (logging_info m w) = tasks w" "tasks (logging_warning m w) = tasks w"
  "tasks (logging_error m w) = tasks w" "tasks (print m w) = tasks w"
  "inventory (logging_info m w) = inventory w" "inventory (logging_warning m w) = inventory w"
  "inventory (logging_error m w) = inventory w" "inventory (print m w) = inventory w"
  "stdin (logging_info m w) = stdin w" "stdin (logging_warning m w) = stdin w"
  "stdin (logging_error m w) = stdin w" "stdin (print m w) = stdin w"
  by (simp_all add: prim_defs)

lemma sleep_facts:
  "trace (time_sleep d w) = trace w @ [Sleep d]"
  "era (time_sleep d w) = Suc (era w)"
  "now (time_sleep d w) = now w + d + delay w (era w)"
  "fails (time_sleep d w) = fails w"
  "delay (time_sleep d w) = delay w"
  "engine (time_sleep d w) = engine w"
  "states (time_sleep d w) = engine w (era w)"
  "tasks (time_sleep d w) = tasks w"
  "inventory (time_sleep d w) = inventory w"
  "stdin (time_sleep d w) = stdin w"
  by (simp_all add: prim_defs)

lemma http_facts:
  "fst (http rq w) = (\<not> fails w (era w))"
  "trace (snd (http rq w)) = trace w @ [Http rq (\<not> fails w (era w))]"
  "era (snd (http rq w)) = Suc (era w)"
  "now (snd (http rq w)) = now w + delay w (era w)"
  "fails (snd (http rq w)) = fails w"
  "delay (snd (http rq w)) = delay w"
  "engine (snd (http rq w)) = engine w"
  "states (snd (http rq w)) = engine w (era w)"
  "inventory (snd (http rq w)) = inventory w"
  "stdin (snd (http rq w)) = stdin w"
  by (cases rq; simp add: prim_defs)+

lemma http_tasks:
  "tasks (snd (http rq w)) =
     (case rq of PutTask r p \<Rightarrow> if fails w (era w) then tasks w else map (put_task r p) (tasks w)
      | _ \<Rightarrow> tasks w)"
  by (cases rq; simp add: prim_defs)

lemma status_facts:
  "trace (snd (get_current_discovery_status r w)) = trace w @ status_events w (era w)"
  "era (snd (get_current_discovery_status r w)) = Suc (era w)"
  "now (snd (get_current_discovery_status r w)) = now w + delay w (era w)"
  "fails (snd (get_current_discovery_status r w)) = fails w"
  "delay (snd (get_current_discovery_status r w)) = delay w"
  "engine (snd (get_current_discovery_status r w)) = engine w"
  "states (snd (get_current_discovery_status r w)) = engine w (era w)"
  "tasks (snd (get_current_discovery_status r w)) = tasks w"
  "inventory (snd (get_current_discovery_status r w)) = inventory w"
  "stdin (snd (get_current_discovery_status r w)) = stdin w"
  by (simp_all add: get_current_discovery_status_def case_prod_unfold Let_def http_facts
        http_tasks log_facts status_events_def split: option.splits)


lemma stop_facts:
  "fst (stop_current_discovery_task r w) = (\<not> fails w (era w))"
  "trace (snd (stop_current_discovery_task r w)) =
     trace w @ [Log INFO ''Stopping current discovery (END): %s'',
                Http (PostControl r END) (\<not> fails w (era w)),
                if fails w (era w) then Log ERROR ''Error ending current discovery: %s''
                else Log INFO ''Current discovery ended successfully. HTTP response code: %d'']"
  "era (snd (stop_current_discovery_task r w)) = Suc (era w)"
  "now (snd (stop_current_discovery_task r w)) = now w + delay w (era w)"
  "fails (snd (stop_current_discovery_task r w)) = fails w"
  "delay (snd (stop_current_discovery_task r w)) = delay w"
  "engine (snd (stop_current_discovery_task r w)) = engine w"
  "states (snd (stop_current_discovery_task r w)) = engine w (era w)"
  "tasks (snd (stop_current_discovery_task r w)) = tasks w"
  "inventory (snd (stop_current_discovery_task r w)) = inventory w"
  "stdin (snd (stop_current_discovery_task r w)) = stdin w"
  by (simp_all add: stop_current_discovery_task_def case_prod_unfold Let_def http_facts
        http_tasks log_facts)

lemma state_read_frame:
  "fails w' = fails w \<Longrightarrow> engine w' = engine w \<Longrightarrow> tasks w' = tasks w \<Longrightarrow>
     state_read r w' k = state_read r w k"
  by (simp add: state_read_def)

lemma upper_running: "upper s = ''RUNNING'' \<Longrightarrow> s \<noteq> []"
  by (auto simp: upper_def)

lemma running_truthy:
  "(truthy x \<and> map_option upper x = Some ''RUNNING'') = (map_option upper x = Some ''RUNNING'')"
  by (cases x) (auto simp: truthy_def dest: upper_running)

lemma start_new_value:
  "fst (start_new_discovery r w) =
     (\<not> fails w (era w) \<and> map_option upper (state_read r w (era w + 2)) = Some ''RUNNING'')"
proof -
  let ?w3 = "time_sleep (seconds 5)
               (logging_info ''Current discovery started successfully. HTTP response code: %d''
                  (snd (http (PostControl r START)
                          (logging_info ''Starting current discovery: %s'' w))))"
  have "state_read r ?w3 (era ?w3) = state_read r w (era w + 2)"
    by (simp add: state_read_def sleep_facts log_facts http_facts http_tasks)
  then show ?thesis
    by (auto simp add: start_new_discovery_def case_prod_unfold Let_def http_facts log_facts
          status_reads truthy_def dest: upper_running)
qed

lemma start_new_trace:
  "trace (snd (start_new_discovery r w)) =
     trace w @ [Log INFO ''Starting current discovery: %s'',
                Http (PostControl r START) (\<not> fails w (era w))]
     @ (if fails w (era w) then [Log ERROR ''Error starting current discovery: %s'']
        else [Log INFO ''Current discovery started successfully. HTTP response code: %d'',
              Sleep (seconds 5)]
             @ status_events w (Suc (Suc (era w)))
             @ [if map_option upper (state_read r w (era w + 2)) = Some ''RUNNING''
                then Log INFO ''Current discovery is now RUNNING.''
                else Log ERROR ''Current discovery failed to start. Final state: %s''])"
proof -
  let ?w3 = "time_sleep (seconds 5)
               (logging_info ''Current discovery started successfully. HTTP response code: %d''
                  (snd (http (PostControl r START)
                          (logging_info ''Starting current discovery: %s'' w))))"
  have "state_read r ?w3 (era ?w3) = state_read r w (era w + 2)"
    by (simp add: state_read_def sleep_facts log_facts http_facts http_tasks)
  then show ?thesis
    by (auto simp add: start_new_discovery_def case_prod_unfold Let_def http_facts log_facts
          status_reads truthy_def status_facts sleep_facts status_events_def
          dest: upper_running)
qed

lemma start_new_facts:
  "fails (snd (start_new_discovery r w)) = fails w"
  "delay (snd (start_new_discovery r w)) = delay w"
  "engine (snd (start_new_discovery r w)) = engine w"
  "tasks (snd (start_new_discovery r w)) = tasks w"
  "inventory (snd (start_new_discovery r w)) = inventory w"
  "stdin (snd (start_new_discovery r w)) = stdin w"
  "era (snd (start_new_discovery r w)) = (if fails w (era w) then Suc (era w) else era w + 3)"
  "states (snd (start_new_discovery r w)) =
     engine w (if fails w (era w) then era w else era w + 2)"
  by (simp_all add: start_new_discovery_def case_prod_unfold Let_def http_facts
        http_tasks log_facts sleep_facts status_facts)


lemma new_events_append: "trace w' = trace w @ es \<Longrightarrow> new_events w w' = es"
  by (simp add: new_events_def)

lemma only_reads_refl: "only_reads w w"
  by (simp add: only_reads_def same_platform_def)

lemma puts_append: "puts (xs @ ys) = puts xs @ puts ys"
  by (induction xs rule: puts.induct) simp_all

lemma prints_append: "prints (xs @ ys) = prints xs @ prints ys"
  by (induction xs rule: prints.induct) simp_all

lemma quiet_puts: "\<not> list_ex is_change es \<Longrightarrow> puts es = []"
  by (induction es rule: puts.induct) simp_all

lemma only_reads_trans: "only_reads a b \<Longrightarrow> only_reads b c \<Longrightarrow> only_reads a c"
  by (auto simp: only_reads_def same_platform_def list_ex_iff prints_append)

lemma status_only_reads: "only_reads w (snd (get_current_discovery_status r w))"
  by (simp add: only_reads_def same_platform_def status_facts status_events_def)

lemma poll_step_only_reads: "only_reads w (poll_step r i w)"
  by (simp add: only_reads_def same_platform_def poll_step_def status_facts status_events_def
        sleep_facts log_facts)

lemma wait_loop_only_reads:
  assumes "wait_loop r s t i w = Some y"
  shows "only_reads w (snd y)"
proof (rule wait_loop.raw_induct [where P = "\<lambda>r s t i w y. only_reads w (snd y)", OF _ assms])
  fix wl r s t i w y
  assume 1: "\<And>r s t i w y. wl r s t i w = Some y \<Longrightarrow> only_reads w (snd y)"
    "(if int (time_time w) - int s < int t
      then let (st, w1) = get_current_discovery_status r w
           in if has_stopped (fst st) then Some (True, w1)
              else wl r s t i (time_sleep i
                     (logging_info ''Waiting for discovery to stop. Current state: %s'' w1))
      else Some (False, w)) = Some y"
  show "only_reads w (snd y)"
  proof (cases "int (time_time w) - int s < int t")
    case False
    with 1(2) have "y = (False, w)" by simp
    then show ?thesis by (simp add: only_reads_refl)
  next
    case True
    show ?thesis
    proof (cases "has_stopped (poll_obs r w 0)")
      case stopped: True
      then have "snd y = snd (get_current_discovery_status r w)" using 1(2) True
        by (auto simp: status_state[symmetric] split: prod.splits)
      then show ?thesis by (simp add: status_only_reads)
    next
      case going: False
      then have "wl r s t i (poll_step r i w) = Some y" using 1(2) True
        by (auto simp: poll_step_def status_state[symmetric] split: prod.splits)
      then have "only_reads (poll_step r i w) (snd y)" by (rule 1(1))
      with poll_step_only_reads show ?thesis by (rule only_reads_trans)
    qed
  qed
qed

lemma wait_returns:
  "0 < i \<Longrightarrow> \<exists>b w'. wait_for_discovery_to_stop r t i w = Some (b, w') \<and> only_reads w w'"
proof -
  assume pos: "0 < i"
  have "int t \<le> int (poll_time w i t) - int (now w)"
    using poll_time_reaches [OF pos, of w t] by linarith
  then obtain y where y: "wait_loop r (now w) t i w = Some y"
    using wait_loop_returns [of r w t t i "now w"] by blast
  from wait_loop_only_reads [OF y] y show ?thesis
    by (cases y) (simp add: wait_for_discovery_to_stop_def time_time_def)
qed

lemma status_events_step: "status_events (poll_step r i w) k = status_events w k"
  by (simp add: status_events_def poll_step_world)

lemma wait_events_step:
  "status_events w (era w)
   @ [Log INFO ''Waiting for discovery to stop. Current state: %s'', Sleep i]
   @ wait_events (poll_step r i w) i n = wait_events w i (Suc n)"
  by (induction n) (simp_all add: status_events_step poll_step_world)

lemma poll_step_trace:
  "trace (poll_step r i w) =
     trace w @ status_events w (era w)
     @ [Log INFO ''Waiting for discovery to stop. Current state: %s'', Sleep i]"
  by (simp add: poll_step_def sleep_facts log_facts status_facts)

lemma wait_loop_events:
  assumes "wait_loop r s t i w = Some y"
  shows "\<exists>n. trace (snd y) =
           trace w @ wait_events w i n
           @ (if fst y then status_events w (era w + 2 * n) else [])"
proof (rule wait_loop.raw_induct
    [where P = "\<lambda>r s t i w y. \<exists>n. trace (snd y) =
           trace w @ wait_events w i n
           @ (if fst y then status_events w (era w + 2 * n) else [])", OF _ assms])
  fix wl r s t i w y
  assume 1: "\<And>r s t i w y. wl r s t i w = Some y \<Longrightarrow> \<exists>n. trace (snd y) =
           trace w @ wait_events w i n
           @ (if fst y then status_events w (era w + 2 * n) else [])"
    "(if int (time_time w) - int s < int t
      then let (st, w1) = get_current_discovery_status r w
           in if has_stopped (fst st) then Some (True, w1)
              else wl r s t i (time_sleep i
                     (logging_info ''Waiting for discovery to stop. Current state: %s'' w1))
      else Some (False, w)) = Some y"
  show "\<exists>n. trace (snd y) =
           trace w @ wait_events w i n
           @ (if fst y then status_events w (era w + 2 * n) else [])"
  proof (cases "int (time_time w) - int s < int t")
    case False
    with 1(2) have "y = (False, w)" by simp
    then have "trace (snd y) = trace w @ wait_events w i 0 @ (if fst y then status_events w (era w + 2 * 0) else [])"
      by simp
    then show ?thesis by blast
  next
    case True
    show ?thesis
    proof (cases "has_stopped (poll_obs r w 0)")
      case stopped: True
      then have "y = (True, snd (get_current_discovery_status r w))" using 1(2) True
        by (auto simp: status_state[symmetric] split: prod.splits)
      then have "trace (snd y) = trace w @ wait_events w i 0 @ (if fst y then status_events w (era w + 2 * 0) else [])"
        by (simp add: status_facts)
      then show ?thesis by blast
    next
      case going: False
      then have "wl r s t i (poll_step r i w) = Some y" using 1(2) True
        by (auto simp: poll_step_def status_state[symmetric] split: prod.splits)
      from 1(1) [OF this] obtain n where
        "trace (snd y) = trace (poll_step r i w) @ wait_events (poll_step r i w) i n
           @ (if fst y then status_events (poll_step r i w) (era (poll_step r i w) + 2 * n) else [])"
        by blast
      then have "trace (snd y) = trace w @ wait_events w i (Suc n)
           @ (if fst y then status_events w (era w + 2 * Suc n) else [])"
        using wait_events_step [of w i r n]
        by (simp add: poll_step_trace status_events_step poll_step_world)
      then show ?thesis by blast
    qed
  qed
qed

text \<open>
  C2. \<open>wait_for_discovery_to_stop\<close> polls the task state with a sleep of the interval
  between two polls: its events are some number of rounds, each a state read, a log line
  and a sleep of the interval, followed by one more state read when the result is true;
  the \<open>n\<close>-th poll is begun at \<open>poll_time w interval n\<close>. It returns
  true exactly when some poll begun before the timeout has elapsed reads a state outside
  RUNNING, PAUSED, END_PENDING; when it returns false the timeout has elapsed; it fails to
  return exactly when no poll reads such a state and the clock never reaches the timeout,
  which cannot happen with a positive interval.
\<close>

theorem wait_for_discovery_to_stop_polls:
  "(wait_for_discovery_to_stop task_ref timeout interval w = None \<longleftrightarrow>
      (\<forall>n. \<not> has_stopped (poll_obs task_ref w n) \<and> poll_time w interval n < now w + timeout))
   \<and> ((\<exists>w'. wait_for_discovery_to_stop task_ref timeout interval w = Some (True, w')) \<longleftrightarrow>
      (\<exists>n. poll_time w interval n < now w + timeout \<and> has_stopped (poll_obs task_ref w n)))
   \<and> (\<forall>w'. wait_for_discovery_to_stop task_ref timeout interval w = Some (False, w') \<longrightarrow>
         now w + timeout \<le> now w')
   \<and> (0 < interval \<longrightarrow> wait_for_discovery_to_stop task_ref timeout interval w \<noteq> None)
   \<and> (\<forall>b w'. wait_for_discovery_to_stop task_ref timeout interval w = Some (b, w') \<longrightarrow>
         (\<exists>n. new_events w w' =
                wait_events w interval n
                @ (if b then status_events w (era w + 2 * n) else [])))"
proof -
  let ?W = "wait_loop task_ref (now w) timeout interval w"
  let ?hit = "\<exists>n. poll_time w interval n < now w + timeout \<and> has_stopped (poll_obs task_ref w n)"
  have unf: "wait_for_discovery_to_stop task_ref timeout interval w = ?W"
    by (simp add: wait_for_discovery_to_stop_def time_time_def)
  have conv: "(int a - int (now w) < int timeout) = (a < now w + timeout)" for a
    by linarith
  have res: "fst y = ?hit" if "?W = Some y" for y
    using wait_loop_result [OF that] by (simp only: conv)
  have late: "now w + timeout \<le> now w'" if "?W = Some (False, w')" for w'
    using wait_loop_false_late [OF that] by linarith
  have ret: "\<exists>y. ?W = Some y"
    if "has_stopped (poll_obs task_ref w n) \<or> now w + timeout \<le> poll_time w interval n" for n
    using that by (intro wait_loop_returns [of _ _ n]) auto
  have a: "?W = None \<longleftrightarrow>
      (\<forall>n. \<not> has_stopped (poll_obs task_ref w n) \<and> poll_time w interval n < now w + timeout)"
  proof
    assume none: "?W = None"
    show "\<forall>n. \<not> has_stopped (poll_obs task_ref w n) \<and> poll_time w interval n < now w + timeout"
    proof (rule ccontr)
      assume "\<not> ?thesis"
      then obtain n where
        "has_stopped (poll_obs task_ref w n) \<or> now w + timeout \<le> poll_time w interval n"
        by (auto simp: not_less)
      from ret [OF this] none show False by simp
    qed
  next
    assume all: "\<forall>n. \<not> has_stopped (poll_obs task_ref w n) \<and> poll_time w interval n < now w + timeout"
    show "?W = None"
    proof (cases ?W)
      case None then show ?thesis .
    next
      case (Some y)
      from res [OF Some] all have nb: "\<not> fst y" by simp
      then have "?W = Some (False, snd y)" using Some by (cases y) simp
      from late [OF this] have "now w + timeout \<le> now (snd y)" .
      moreover from wait_loop_false_time [OF Some] nb
      obtain n where "now (snd y) = poll_time w interval n" by blast
      ultimately show ?thesis using all by (metis not_less)
    qed
  qed
  have b: "(\<exists>w'. ?W = Some (True, w')) \<longleftrightarrow> ?hit"
  proof
    assume "\<exists>w'. ?W = Some (True, w')"
    then obtain w' where "?W = Some (True, w')" ..
    from res [OF this] show ?hit by simp
  next
    assume hit: ?hit
    then obtain n where "has_stopped (poll_obs task_ref w n)" by blast
    then obtain y where y: "?W = Some y" using ret [of n] by blast
    with res [OF y] hit have "fst y" by simp
    with y show "\<exists>w'. ?W = Some (True, w')" by (cases y) auto
  qed
  have d: "0 < interval \<longrightarrow> ?W \<noteq> None"
  proof
    assume "0 < interval"
    from ret [of timeout] poll_time_reaches [OF this, of w timeout]
    show "?W \<noteq> None" by auto
  qed
  have ev: "\<exists>n. new_events w w' =
                wait_events w interval n
                @ (if b then status_events w (era w + 2 * n) else [])"
    if "?W = Some (b, w')" for b w'
  proof -
    from wait_loop_events [OF that] obtain n where
      "trace w' = trace w @ (wait_events w interval n
                @ (if b then status_events w (era w + 2 * n) else []))"
      by auto
    then have "new_events w w' = wait_events w interval n
                @ (if b then status_events w (era w + 2 * n) else [])"
      by (rule new_events_append)
    then show ?thesis ..
  qed
  from a b late d ev show ?thesis unfolding unf by blast
qed


theorem wait_for_discovery_to_stop_polls_witness:
  "0 < seconds 5 \<and>
   (\<exists>w'. wait_for_discovery_to_stop ''discoverytask/current'' (seconds 60) (seconds 5) demo_world
            = Some (True, w'))"
proof -
  have "poll_time demo_world (seconds 5) 3 < now demo_world + seconds 60
        \<and> has_stopped (poll_obs ''discoverytask/current'' demo_world 3)"
    by (simp add: poll_time_def poll_obs_def state_read_def demo_world_def demo_task_def seconds_def
          has_stopped_def upper_def upper_char_def active_states_def upt_rec)
  then show ?thesis
    using wait_for_discovery_to_stop_polls
            [of "''discoverytask/current''" "seconds 60" "seconds 5" demo_world]
    by (auto simp: seconds_def)
qed


text \<open>
  C9. In \<open>wait_for_discovery_to_stop\<close> a poll whose state read gives nothing is never
  counted as the task having stopped: the state a poll reads is the result of
  \<open>get_current_discovery_status\<close>; a result of true comes from a poll, begun before the
  timeout, that read a definite (non-empty) state outside RUNNING, PAUSED, END_PENDING;
  and when every poll reads nothing, the wait (with a positive interval) returns false,
  after the timeout has elapsed.
\<close>

theorem wait_unknown_is_not_stopped:
  "fst (fst (get_current_discovery_status task_ref w)) = poll_obs task_ref w 0
   \<and> (\<forall>w'. wait_for_discovery_to_stop task_ref timeout interval w = Some (True, w') \<longrightarrow>
         (\<exists>n s. poll_obs task_ref w n = Some s \<and> s \<noteq> [] \<and> upper s \<notin> set active_states
                \<and> poll_time w interval n < now w + timeout))
   \<and> (0 < interval \<and> (\<forall>n. poll_obs task_ref w n = None) \<longrightarrow>
         (\<exists>w'. wait_for_discovery_to_stop task_ref timeout interval w = Some (False, w')
               \<and> now w + timeout \<le> now w'))"
proof -
  let ?W = "wait_loop task_ref (now w) timeout interval w"
  have unf: "wait_for_discovery_to_stop task_ref timeout interval w = ?W"
    by (simp add: wait_for_discovery_to_stop_def time_time_def)
  have conv: "(int a - int (now w) < int timeout) = (a < now w + timeout)" for a
    by linarith
  have one: "\<exists>n s. poll_obs task_ref w n = Some s \<and> s \<noteq> [] \<and> upper s \<notin> set active_states
                \<and> poll_time w interval n < now w + timeout"
    if "?W = Some (True, w')" for w'
  proof -
    from wait_loop_result [OF that] obtain n where
      n: "poll_time w interval n < now w + timeout" "has_stopped (poll_obs task_ref w n)"
      by (auto simp only: conv fst_conv simp_thms)
    from n(2) obtain s where "poll_obs task_ref w n = Some s" "s \<noteq> []"
      "upper s \<notin> set active_states"
      by (auto simp: has_stopped_def split: option.splits)
    with n(1) show ?thesis by blast
  qed
  have two: "\<exists>w'. ?W = Some (False, w') \<and> now w + timeout \<le> now w'"
    if pos: "0 < interval" and dark: "\<forall>n. poll_obs task_ref w n = None"
  proof -
    have "int timeout \<le> int (poll_time w interval timeout) - int (now w)"
      using poll_time_reaches [OF pos, of w timeout] by linarith
    then obtain y where y: "?W = Some y"
      using wait_loop_returns [of task_ref w timeout timeout interval "now w"] by blast
    from wait_loop_result [OF y] dark have "\<not> fst y"
      by (simp add: has_stopped_def)
    with y have f: "?W = Some (False, snd y)" by (cases y) simp
    from wait_loop_false_late [OF f] have "now w + timeout \<le> now (snd y)" by linarith
    with f show ?thesis by blast
  qed
  from one two show ?thesis
    unfolding unf by (simp add: status_state)
qed

theorem wait_unknown_is_not_stopped_witness:
  "0 < seconds 5 \<and> (\<forall>n. poll_obs ''discoverytask/current'' dark_world n = None)
   \<and> (\<exists>w'. wait_for_discovery_to_stop ''discoverytask/current'' (seconds 60) (seconds 5)
             dark_world = Some (False, w')
           \<and> now dark_world + seconds 60 \<le> now w')"
proof -
  have "\<forall>n. poll_obs ''discoverytask/current'' dark_world n = None"
    by (simp add: poll_obs_def state_read_def dark_world_def)
  moreover have "0 < seconds 5"
    by (simp add: seconds_def)
  ultimately show ?thesis
    using wait_unknown_is_not_stopped
            [of "''discoverytask/current''" dark_world "seconds 60" "seconds 5"]
    by blast
qed

lemma start_unfold:
  "start_current_discovery_task r w =
     (let w1 = snd (get_current_discovery_status r w)
      in if is_active (state_read r w (era w))
         then (let w3 = snd (stop_current_discovery_task r
                          (logging_info ''Current discovery is %s; attempting to end it.'' w1))
               in if fails w (Suc (era w))
                  then Some (False, logging_error ''Failed to end the current discovery task.'' w3)
                  else (case wait_for_discovery_to_stop r (seconds 60) (seconds 5) w3 of
                          None \<Rightarrow> None
                        | Some (converged, w4) \<Rightarrow>
                            if \<not> converged
                            then Some (False,
                                       logging_error ''Timed out waiting for discovery to end.'' w4)
                            else Some (start_new_discovery r w4)))
         else Some (start_new_discovery r
                      (logging_info ''Current discovery state is '%s'. Proceeding to start.'' w1)))"
  by (simp add: start_current_discovery_task_def case_prod_unfold Let_def status_reads
        stop_facts log_facts status_facts)

text \<open>
  C10. In \<open>start_current_discovery_task\<close>, when the initial state read gives nothing,
  the stop-and-await phase is skipped and the START action is issued at once: the run
  returns, and its events are the state read, two log lines and the START request as the
  second interaction (no END request, no poll, no sleep before it).
\<close>

theorem start_with_unknown_state:
  assumes "fst (fst (get_current_discovery_status task_ref w)) = None"
  shows "\<exists>res w' rest. start_current_discovery_task task_ref w = Some (res, w') \<and>
        new_events w w' =
          status_events w (era w)
          @ [Log INFO ''Current discovery state is '%s'. Proceeding to start.'',
             Log INFO ''Starting current discovery: %s'',
             Http (PostControl task_ref START) (\<not> fails w (Suc (era w)))]
          @ rest"
proof -
  let ?w1 = "logging_info ''Current discovery state is '%s'. Proceeding to start.''
               (snd (get_current_discovery_status task_ref w))"
  from assms have "\<not> is_active (state_read task_ref w (era w))"
    by (simp add: status_reads is_active_def)
  then have eq: "start_current_discovery_task task_ref w = Some (start_new_discovery task_ref ?w1)"
    by (simp add: start_unfold)
  have "\<exists>rest. trace (snd (start_new_discovery task_ref ?w1)) = trace w @
          status_events w (era w)
          @ [Log INFO ''Current discovery state is '%s'. Proceeding to start.'',
             Log INFO ''Starting current discovery: %s'',
             Http (PostControl task_ref START) (\<not> fails w (Suc (era w)))]
          @ rest"
    by (simp add: start_new_trace log_facts status_facts)
  then obtain rest where "new_events w (snd (start_new_discovery task_ref ?w1)) =
          status_events w (era w)
          @ [Log INFO ''Current discovery state is '%s'. Proceeding to start.'',
             Log INFO ''Starting current discovery: %s'',
             Http (PostControl task_ref START) (\<not> fails w (Suc (era w)))]
          @ rest"
    by (auto dest: new_events_append)
  with eq show ?thesis
    by (metis prod.collapse)
qed


lemma is_start_change: "is_start e \<Longrightarrow> is_change e"
  by (cases e rule: is_start.cases) simp_all

lemma only_reads_events:
  "only_reads a b \<Longrightarrow> trace a = trace w @ es \<Longrightarrow>
     \<exists>es'. trace b = trace w @ es @ es' \<and> \<not> list_ex is_change es'"
  by (auto simp: only_reads_def)

theorem start_with_unknown_state_witness:
  "fst (fst (get_current_discovery_status ''discoverytask/current'' dark_world)) = None
   \<and> (\<exists>res w' rest. start_current_discovery_task ''discoverytask/current'' dark_world
                       = Some (res, w')
        \<and> new_events dark_world w' =
            [Http GetTaskStatus False,
             Log ERROR ''Error retrieving discovery task status: %s'',
             Log INFO ''Current discovery state is '%s'. Proceeding to start.'',
             Log INFO ''Starting current discovery: %s'',
             Http (PostControl ''discoverytask/current'' START) False] @ rest)"
proof -
  have h: "fst (fst (get_current_discovery_status ''discoverytask/current'' dark_world)) = None"
    by (simp add: status_reads state_read_def dark_world_def)
  from start_with_unknown_state [OF h] h show ?thesis
    by (simp add: status_events_def dark_world_def)
qed

text \<open>
  C1. When the initial state read of \<open>start_current_discovery_task\<close> is RUNNING, PAUSED
  or END_PENDING, the run returns and has issued the END action; if END failed, or END
  succeeded and the wait returned false (timeout), no START action is among the events
  and the result is failure; otherwise the START request comes after all events of the
  END action and of the converged wait, and is the only START.
\<close>

theorem start_serializes_stop_then_start:
  assumes st: "get_current_discovery_status task_ref w = (st, w1)"
    and act: "is_active (fst st)"
    and stop: "stop_current_discovery_task task_ref
                 (logging_info ''Current discovery is %s; attempting to end it.'' w1) = (ended, w3)"
  shows "\<exists>res w'. start_current_discovery_task task_ref w = Some (res, w')
           \<and> Http (PostControl task_ref END) ended \<in> set (new_events w w')
           \<and> (if \<not> ended then \<not> res \<and> \<not> list_ex is_start (new_events w w')
               else \<exists>conv w4.
                      wait_for_discovery_to_stop task_ref (seconds 60) (seconds 5) w3
                        = Some (conv, w4)
                      \<and> (if \<not> conv then \<not> res \<and> \<not> list_ex is_start (new_events w w')
                          else \<exists>rest.
                                 new_events w w' =
                                   new_events w w4
                                   @ [Log INFO ''Starting current discovery: %s'',
                                      Http (PostControl task_ref START) (\<not> fails w4 (era w4))]
                                   @ rest
                                 \<and> \<not> list_ex is_start (new_events w w4)
                                 \<and> \<not> list_ex is_start rest))"
proof -
  have w1: "w1 = snd (get_current_discovery_status task_ref w)" using st by simp
  have act': "is_active (state_read task_ref w (era w))"
    using st act status_reads [of task_ref w] by simp
  have w3: "w3 = snd (stop_current_discovery_task task_ref
                 (logging_info ''Current discovery is %s; attempting to end it.'' w1))"
    using stop by simp
  have ended: "ended = (\<not> fails w (Suc (era w)))"
    using stop stop_facts(1) [of task_ref
        "logging_info ''Current discovery is %s; attempting to end it.'' w1"]
    by (simp add: w1 log_facts status_facts)
  define pre where "pre = status_events w (era w)
      @ [Log INFO ''Current discovery is %s; attempting to end it.'',
         Log INFO ''Stopping current discovery (END): %s'',
         Http (PostControl task_ref END) ended,
         if \<not> ended then Log ERROR ''Error ending current discovery: %s''
         else Log INFO ''Current discovery ended successfully. HTTP response code: %d'']"
  have tr3: "trace w3 = trace w @ pre"
    by (simp add: w3 w1 pre_def ended stop_facts log_facts status_facts)
  have pre_quiet: "\<not> list_ex is_start pre"
    by (simp add: pre_def status_events_def)
  have pre_end: "Http (PostControl task_ref END) ended \<in> set pre"
    by (simp add: pre_def)
  show ?thesis
  proof (cases ended)
    case False
    then have eq: "start_current_discovery_task task_ref w
        = Some (False, logging_error ''Failed to end the current discovery task.'' w3)"
      using act' by (simp add: start_unfold ended w3 w1)
    have "new_events w (logging_error ''Failed to end the current discovery task.'' w3)
            = pre @ [Log ERROR ''Failed to end the current discovery task.'']"
      by (rule new_events_append) (simp add: log_facts tr3)
    with eq False pre_quiet pre_end show ?thesis
      by (intro exI [where x = False]
            exI [where x = "logging_error ''Failed to end the current discovery task.'' w3"])
         simp
  next
    case True
    have "0 < seconds 5" by (simp add: seconds_def)
    from wait_returns [OF this, of task_ref "seconds 60" w3]
    obtain conv w4 where
      wt: "wait_for_discovery_to_stop task_ref (seconds 60) (seconds 5) w3 = Some (conv, w4)"
      and ro: "only_reads w3 w4" by blast
    from only_reads_events [OF ro tr3] obtain es where
      tr4: "trace w4 = trace w @ pre @ es" and quiet: "\<not> list_ex is_change es" by blast
    have es_quiet: "\<not> list_ex is_start es"
      using quiet is_start_change by (auto simp: list_ex_iff)
    have ne4: "new_events w w4 = pre @ es"
      by (rule new_events_append) (simp add: tr4)
    show ?thesis
    proof (cases conv)
      case False
      then have eq: "start_current_discovery_task task_ref w
          = Some (False, logging_error ''Timed out waiting for discovery to end.'' w4)"
        using act' True wt by (simp add: start_unfold ended w3 w1)
      have "new_events w (logging_error ''Timed out waiting for discovery to end.'' w4)
              = pre @ es @ [Log ERROR ''Timed out waiting for discovery to end.'']"
        by (rule new_events_append) (simp add: log_facts tr4)
      with eq False True wt pre_quiet es_quiet pre_end show ?thesis
        by (intro exI [where x = False]
              exI [where x = "logging_error ''Timed out waiting for discovery to end.'' w4"])
           auto
    next
      case conv: True
      then have eq: "start_current_discovery_task task_ref w
          = Some (start_new_discovery task_ref w4)"
        using act' True wt by (simp add: start_unfold ended w3 w1)
      obtain rest where
        tr: "trace (snd (start_new_discovery task_ref w4)) =
               trace w @ (pre @ es)
               @ [Log INFO ''Starting current discovery: %s'',
                  Http (PostControl task_ref START) (\<not> fails w4 (era w4))] @ rest"
        and rest_quiet: "\<not> list_ex is_start rest"
        by (simp add: start_new_trace tr4 status_events_def split: if_splits)
      have ne: "new_events w (snd (start_new_discovery task_ref w4)) =
               (pre @ es)
               @ [Log INFO ''Starting current discovery: %s'',
                  Http (PostControl task_ref START) (\<not> fails w4 (era w4))] @ rest"
        by (rule new_events_append) (simp add: tr)
      have "Http (PostControl task_ref END) ended \<in> set (new_events w (snd (start_new_discovery task_ref w4)))"
        using pre_end by (simp add: ne)
      with eq conv True wt ne ne4 pre_quiet es_quiet rest_quiet show ?thesis
        by (intro exI [where x = "fst (start_new_discovery task_ref w4)"]
              exI [where x = "snd (start_new_discovery task_ref w4)"])
           auto
    qed
  qed
qed

theorem start_serializes_stop_then_start_witness:
  "is_active (fst (fst (get_current_discovery_status ''discoverytask/current'' demo_world)))
   \<and> (\<exists>res w'. start_current_discovery_task ''discoverytask/current'' demo_world
                  = Some (res, w')
        \<and> Http (PostControl ''discoverytask/current'' END) True \<in> set (new_events demo_world w'))"
proof -
  let ?r = "''discoverytask/current''"
  let ?s = "get_current_discovery_status ?r demo_world"
  let ?e = "stop_current_discovery_task ?r
              (logging_info ''Current discovery is %s; attempting to end it.'' (snd ?s))"
  have a: "?s = (fst ?s, snd ?s)" by simp
  have b: "is_active (fst (fst ?s))"
    by (simp add: status_reads state_read_def demo_world_def demo_task_def is_active_def
          upper_def upper_char_def active_states_def)
  have c: "?e = (fst ?e, snd ?e)" by simp
  have d: "fst ?e"
    by (simp add: stop_facts log_facts status_facts demo_world_def)
  from start_serializes_stop_then_start [OF a b c] b d show ?thesis
    by auto
qed

subsection \<open>More facts about the operations\<close>

lemma find_list_tasks_oid:
  "find (\<lambda>t. j_oid t = x) (list_tasks w) =
     map_option (\<lambda>t. \<lparr>j_ref = t_ref t, j_oid = t_oid t,
                j_state = fst (states w (t_ref t)), j_status = snd (states w (t_ref t))\<rparr>)
       (find (\<lambda>t. t_oid t = x) (tasks w))"
  unfolding list_tasks_def by (simp add: find_map_list)

lemma current_ref_facts:
  "fst (get_current_discovery_ref w) = found_task ''current'' w"
  "trace (snd (get_current_discovery_ref w)) =
     trace w @ [Http GetTasks (\<not> fails w (era w)),
                if fails w (era w) then Log ERROR ''Error retrieving discovery tasks: %s''
                else if found_task ''current'' w = None
                     then Log WARNING ''No current discovery task found.''
                     else Log INFO ''Found current discovery task ref: %s'']"
  "era (snd (get_current_discovery_ref w)) = Suc (era w)"
  "now (snd (get_current_discovery_ref w)) = now w + delay w (era w)"
  "fails (snd (get_current_discovery_ref w)) = fails w"
  "delay (snd (get_current_discovery_ref w)) = delay w"
  "engine (snd (get_current_discovery_ref w)) = engine w"
  "states (snd (get_current_discovery_ref w)) = engine w (era w)"
  "tasks (snd (get_current_discovery_ref w)) = tasks w"
  "inventory (snd (get_current_discovery_ref w)) = inventory w"
  "stdin (snd (get_current_discovery_ref w)) = stdin w"
  by (simp_all add: get_current_discovery_ref_def case_prod_unfold Let_def http_facts
        http_tasks log_facts find_list_tasks_oid found_task_def split: option.splits)

lemma scheduled_ref_facts:
  "fst (get_scheduled_discovery_ref w) = found_task ''scheduled'' w"
  "trace (snd (get_scheduled_discovery_ref w)) =
     trace w @ [Http GetTasks (\<not> fails w (era w)),
                if fails w (era w) then Log ERROR ''Error retrieving discovery tasks: %s''
                else if found_task ''scheduled'' w = None
                     then Log WARNING ''No scheduled discovery task found.''
                     else Log INFO ''Found scheduled discovery task ref: %s'']"
  "era (snd (get_scheduled_discovery_ref w)) = Suc (era w)"
  "now (snd (get_scheduled_discovery_ref w)) = now w + delay w (era w)"
  "fails (snd (get_scheduled_discovery_ref w)) = fails w"
  "delay (snd (get_scheduled_discovery_ref w)) = delay w"
  "engine (snd (get_scheduled_discovery_ref w)) = engine w"
  "states (snd (get_scheduled_discovery_ref w)) = engine w (era w)"
  "tasks (snd (get_scheduled_discovery_ref w)) = tasks w"
  "inventory (snd (get_scheduled_discovery_ref w)) = inventory w"
  "stdin (snd (get_scheduled_discovery_ref w)) = stdin w"
  by (simp_all add: get_scheduled_discovery_ref_def case_prod_unfold Let_def http_facts
        http_tasks log_facts find_list_tasks_oid found_task_def split: option.splits)

lemma networks_facts:
  "fst (get_discovery_enabled_networks w) =
     (if fails w (era w) then []
      else map n_ref (filter (\<lambda>n. n_discovery n = Some ''True'') (inventory w)))"
  "trace (snd (get_discovery_enabled_networks w)) =
     trace w @ [Http GetNetworks (\<not> fails w (era w)),
                if fails w (era w) then Log ERROR ''Error retrieving network objects: %s''
                else Log INFO ''Found %d networks with Network_Discovery=True'']"
  "era (snd (get_discovery_enabled_networks w)) = Suc (era w)"
  "now (snd (get_discovery_enabled_networks w)) = now w + delay w (era w)"
  "fails (snd (get_discovery_enabled_networks w)) = fails w"
  "delay (snd (get_discovery_enabled_networks w)) = delay w"
  "engine (snd (get_discovery_enabled_networks w)) = engine w"
  "states (snd (get_discovery_enabled_networks w)) = engine w (era w)"
  "tasks (snd (get_discovery_enabled_networks w)) = tasks w"
  "inventory (snd (get_discovery_enabled_networks w)) = inventory w"
  "stdin (snd (get_discovery_enabled_networks w)) = stdin w"
  by (simp_all add: get_discovery_enabled_networks_def case_prod_unfold Let_def http_facts
        http_tasks log_facts)

lemma network_ref_facts:
  "fst (get_network_ref c v w) = found_network c v w"
  "trace (snd (get_network_ref c v w)) =
     trace w @ [Http (GetNetworkByCidr c v) (\<not> fails w (era w)),
                if fails w (era w) then Log ERROR ''Error retrieving network ref for %s: %s''
                else if found_network c v w = None
                     then Log ERROR ''No network object found for network: %s in view: %s''
                     else Log INFO ''Found network ref for %s in view '%s': %s'']"
  "era (snd (get_network_ref c v w)) = Suc (era w)"
  "now (snd (get_network_ref c v w)) = now w + delay w (era w)"
  "fails (snd (get_network_ref c v w)) = fails w"
  "delay (snd (get_network_ref c v w)) = delay w"
  "engine (snd (get_network_ref c v w)) = engine w"
  "states (snd (get_network_ref c v w)) = engine w (era w)"
  "tasks (snd (get_network_ref c v w)) = tasks w"
  "inventory (snd (get_network_ref c v w)) = inventory w"
  "stdin (snd (get_network_ref c v w)) = stdin w"
  by (simp_all add: get_network_ref_def case_prod_unfold Let_def http_facts
        http_tasks log_facts found_network_def split: list.splits)

lemma update_current_facts:
  "fst (update_current_discovery_task v r ns m pr pt w) = (\<not> fails w (era w))"
  "trace (snd (update_current_discovery_task v r ns m pr pt w)) =
     trace w @ [Log INFO ''Updating current discovery '%s' with %d networks in view '%s'.'',
                Http (PutTask r \<lparr>p_mode = m, p_network_view = v, p_networks = ns,
                                  p_ping_retries = pr, p_ping_timeout = pt\<rparr>)
                     (\<not> fails w (era w)),
                if fails w (era w)
                then Log ERROR ''Error updating current discovery with new networks: %s''
                else Log INFO ''Current discovery updated successfully. HTTP code: %d'']"
  "era (snd (update_current_discovery_task v r ns m pr pt w)) = Suc (era w)"
  "now (snd (update_current_discovery_task v r ns m pr pt w)) = now w + delay w (era w)"
  "fails (snd (update_current_discovery_task v r ns m pr pt w)) = fails w"
  "delay (snd (update_current_discovery_task v r ns m pr pt w)) = delay w"
  "engine (snd (update_current_discovery_task v r ns m pr pt w)) = engine w"
  "states (snd (update_current_discovery_task v r ns m pr pt w)) = engine w (era w)"
  "tasks (snd (update_current_discovery_task v r ns m pr pt w)) =
     (if fails w (era w) then tasks w
      else map (put_task r \<lparr>p_mode = m, p_network_view = v, p_networks = ns,
                             p_ping_retries = pr, p_ping_timeout = pt\<rparr>) (tasks w))"
  "inventory (snd (update_current_discovery_task v r ns m pr pt w)) = inventory w"
  "stdin (snd (update_current_discovery_task v r ns m pr pt w)) = stdin w"
  by (simp_all add: update_current_discovery_task_def case_prod_unfold Let_def http_facts
        http_tasks log_facts)

lemma update_scheduled_facts:
  "fst (update_scheduled_discovery_task cfg r ns m pr pt w) = (\<not> fails w (era w))"
  "trace (snd (update_scheduled_discovery_task cfg r ns m pr pt w)) =
     trace w @ [Log INFO ''Overwriting scheduled discovery '%s' with %d networks in view '%s'.'',
                Http (PutTask r \<lparr>p_mode = m, p_network_view = cfg_network_view cfg,
                                  p_networks = ns,
                                  p_ping_retries = pr, p_ping_timeout = pt\<rparr>)
                     (\<not> fails w (era w)),
                if fails w (era w)
                then Log ERROR ''Error updating scheduled discovery with new networks: %s''
                else Log INFO ''Scheduled discovery updated successfully. HTTP code: %d'']"
  "era (snd (update_scheduled_discovery_task cfg r ns m pr pt w)) = Suc (era w)"
  "now (snd (update_scheduled_discovery_task cfg r ns m pr pt w)) = now w + delay w (era w)"
  "fails (snd (update_scheduled_discovery_task cfg r ns m pr pt w)) = fails w"
  "delay (snd (update_scheduled_discovery_task cfg r ns m pr pt w)) = delay w"
  "engine (snd (update_scheduled_discovery_task cfg r ns m pr pt w)) = engine w"
  "states (snd (update_scheduled_discovery_task cfg r ns m pr pt w)) = engine w (era w)"
  "tasks (snd (update_scheduled_discovery_task cfg r ns m pr pt w)) =
     (if fails w (era w) then tasks w
      else map (put_task r \<lparr>p_mode = m, p_network_view = cfg_network_view cfg,
                             p_networks = ns,
                             p_ping_retries = pr, p_ping_timeout = pt\<rparr>) (tasks w))"
  "inventory (snd (update_scheduled_discovery_task cfg r ns m pr pt w)) = inventory w"
  "stdin (snd (update_scheduled_discovery_task cfg r ns m pr pt w)) = stdin w"
  by (simp_all add: update_scheduled_discovery_task_def case_prod_unfold Let_def http_facts
        http_tasks log_facts)

lemma scheduler_update_facts:
  "fst (scheduler_update_scheduled_discovery_task r ns m pr pt w) = None"
  "trace (snd (scheduler_update_scheduled_discovery_task r ns m pr pt w)) =
     trace w @ [Log INFO ''Overwriting scheduled discovery '%s' with %d networks.'',
                Http (PutTask r \<lparr>p_mode = m, p_network_view = ''GLOBAL'', p_networks = ns,
                                  p_ping_retries = pr, p_ping_timeout = pt\<rparr>)
                     (\<not> fails w (era w)),
                if fails w (era w)
                then Log ERROR ''Error updating scheduled discovery with new networks: %s''
                else Log INFO ''Scheduled discovery updated successfully. HTTP code: %d'']"
  "era (snd (scheduler_update_scheduled_discovery_task r ns m pr pt w)) = Suc (era w)"
  "now (snd (scheduler_update_scheduled_discovery_task r ns m pr pt w)) = now w + delay w (era w)"
  "fails (snd (scheduler_update_scheduled_discovery_task r ns m pr pt w)) = fails w"
  "delay (snd (scheduler_update_scheduled_discovery_task r ns m pr pt w)) = delay w"
  "engine (snd (scheduler_update_scheduled_discovery_task r ns m pr pt w)) = engine w"
  "states (snd (scheduler_update_scheduled_discovery_task r ns m pr pt w)) = engine w (era w)"
  "tasks (snd (scheduler_update_scheduled_discovery_task r ns m pr pt w)) =
     (if fails w (era w) then tasks w
      else map (put_task r \<lparr>p_mode = m, p_network_view = ''GLOBAL'', p_networks = ns,
                             p_ping_retries = pr, p_ping_timeout = pt\<rparr>) (tasks w))"
  "inventory (snd (scheduler_update_scheduled_discovery_task r ns m pr pt w)) = inventory w"
  "stdin (snd (scheduler_update_scheduled_discovery_task r ns m pr pt w)) = stdin w"
  by (simp_all add: scheduler_update_scheduled_discovery_task_def case_prod_unfold Let_def
        http_facts http_tasks log_facts)

lemma start_scheduled_facts:
  "fst (start_scheduled_discovery_task r w) = None"
  "trace (snd (start_scheduled_discovery_task r w)) =
     trace w @ [Log INFO ''Starting scheduled discovery: %s'',
                Http (PostControl r START) (\<not> fails w (era w)),
                if fails w (era w)
                then Log ERROR ''Error starting scheduled discovery task: %s''
                else Log INFO ''Scheduled discovery STARTED successfully. HTTP response code: %d'']"
  by (simp_all add: start_scheduled_discovery_task_def case_prod_unfold Let_def
        http_facts http_tasks log_facts)

lemma prompt_facts:
  "prompt_overwrite True w = (Inr True, w)"
  "fst (prompt_overwrite False w) =
     (case stdin w of [] \<Rightarrow> Inl EOFError | a # _ \<Rightarrow> Inr (lower (strip a) = ''y''))"
  "trace (snd (prompt_overwrite False w)) =
     trace w @ [Input ''Current discovery is running or paused. Do you want to stop it and run a new discovery? (y/n): '']"
  "era (snd (prompt_overwrite False w)) = Suc (era w)"
  "now (snd (prompt_overwrite False w)) = now w + delay w (era w)"
  "fails (snd (prompt_overwrite False w)) = fails w"
  "delay (snd (prompt_overwrite False w)) = delay w"
  "engine (snd (prompt_overwrite False w)) = engine w"
  "states (snd (prompt_overwrite False w)) = engine w (era w)"
  "tasks (snd (prompt_overwrite False w)) = tasks w"
  "inventory (snd (prompt_overwrite False w)) = inventory w"
  "stdin (snd (prompt_overwrite False w)) = tl (stdin w)"
  by (simp_all add: prompt_overwrite_def input_def interact_def emit_def Let_def
        split: list.splits)


lemma quiet_run_refl: "quiet_run w w"
  by (simp add: quiet_run_def same_platform_def)

lemma quiet_run_trans: "quiet_run a b \<Longrightarrow> quiet_run b c \<Longrightarrow> quiet_run a c"
  by (auto simp: quiet_run_def same_platform_def puts_append prints_append)

lemma only_reads_quiet: "only_reads a b \<Longrightarrow> quiet_run a b"
  by (auto simp: only_reads_def quiet_run_def quiet_puts)

lemma quiet_log:
  "quiet_run w x \<Longrightarrow> quiet_run w (logging_info m x)"
  "quiet_run w x \<Longrightarrow> quiet_run w (logging_warning m x)"
  "quiet_run w x \<Longrightarrow> quiet_run w (logging_error m x)"
  by (auto simp: quiet_run_def same_platform_def log_facts puts_append prints_append)

lemma quiet_status:
  "quiet_run w x \<Longrightarrow> quiet_run w (snd (get_current_discovery_status r x))"
  by (auto simp: quiet_run_def same_platform_def status_facts status_events_def
        puts_append prints_append)

lemma quiet_stop:
  "quiet_run w x \<Longrightarrow> quiet_run w (snd (stop_current_discovery_task r x))"
  by (auto simp: quiet_run_def same_platform_def stop_facts puts_append prints_append)

lemma quiet_start_new:
  "quiet_run w x \<Longrightarrow> quiet_run w (snd (start_new_discovery r x))"
  by (auto simp: quiet_run_def same_platform_def start_new_facts start_new_trace
        status_events_def puts_append prints_append)

lemma start_effects:
  "\<exists>res w'. start_current_discovery_task r w = Some (res, w') \<and> quiet_run w w'
      \<and> (res \<longrightarrow> find (\<lambda>t. t_ref t = r) (tasks w') \<noteq> None
                \<and> map_option upper (fst (states w' r)) = Some ''RUNNING'')"
proof -
  let ?w1 = "snd (get_current_discovery_status r w)"
  let ?w3 = "snd (stop_current_discovery_task r
               (logging_info ''Current discovery is %s; attempting to end it.'' ?w1))"
  have q3: "quiet_run w ?w3"
    by (intro quiet_stop quiet_log quiet_status quiet_run_refl)
  have fin: "quiet_run w (snd (start_new_discovery r x))
      \<and> (fst (start_new_discovery r x) \<longrightarrow>
            find (\<lambda>t. t_ref t = r) (tasks (snd (start_new_discovery r x))) \<noteq> None
          \<and> map_option upper (fst (states (snd (start_new_discovery r x)) r)) = Some ''RUNNING'')"
    if "quiet_run w x" for x
    using that
    by (auto simp: quiet_start_new start_new_value start_new_facts state_read_def
          split: if_splits)
  have "0 < seconds 5" by (simp add: seconds_def)
  from wait_returns [OF this, of r "seconds 60" ?w3]
  obtain conv w4 where
    wt: "wait_for_discovery_to_stop r (seconds 60) (seconds 5) ?w3 = Some (conv, w4)"
    and ro: "only_reads ?w3 w4" by blast
  have q4: "quiet_run w w4"
    using q3 only_reads_quiet [OF ro] by (rule quiet_run_trans)
  show ?thesis
  proof (cases "is_active (state_read r w (era w))")
    case False
    have "quiet_run w (logging_info ''Current discovery state is '%s'. Proceeding to start.'' ?w1)"
      by (intro quiet_log quiet_status quiet_run_refl)
    from fin [OF this] False show ?thesis
      by (simp add: start_unfold) (metis prod.collapse)
  next
    case True
    show ?thesis
    proof (cases "fails w (Suc (era w))")
      case fl: True
      with True q3 show ?thesis
        by (auto simp add: start_unfold quiet_log)
    next
      case ok: False
      show ?thesis
      proof (cases conv)
        case False
        with True ok wt q4 show ?thesis
          by (auto simp add: start_unfold quiet_log)
      next
        case cv: True
        from fin [OF q4] True ok wt cv show ?thesis
          by (simp add: start_unfold) (metis prod.collapse)
      qed
    qed
  qed
qed


lemma put_task_ref: "t_ref (put_task r p t) = t_ref t"
  by (simp add: put_task_def)

lemma put_task_config: "t_ref t = r \<Longrightarrow> t_config (put_task r p t) = p"
  by (simp add: put_task_def)

lemma filter_by_view_Nil: "filter_by_view [] v = []"
  by (simp add: filter_by_view_def)


subsection \<open>The reconfigure-and-start cycle\<close>

lemma find_in_set: "find P xs = Some x \<Longrightarrow> x \<in> set xs"
  by (induction xs) (auto split: if_splits)

text \<open>
  C3. The reconfigure-and-start cycle of \<^verbatim>\<open>main\<close> (\<^verbatim>\<open>current-discovery.py\<close>), run with
  a non-empty filtered list. When the update fails, the only line printed is the update
  error. When the update succeeds and the start returns true, every task with the
  reference (there is one) has exactly the payload of the update as its configuration,
  whatever it was before, so its network list is the list passed; its state, upper-cased,
  is RUNNING; and the success line is printed. When the start returns false, the start
  error is printed instead of the success line.
\<close>

theorem reconfigure_and_start_cycle:
  assumes nets: "get_discovery_enabled_networks w = (discovered, wa)"
    and flt: "filter_by_view discovered view = nets" and ne: "nets \<noteq> []"
    and upd: "update_current_discovery_task view task_ref nets ''ICMP'' 5 1500
                (logging_info
                   ''After filtering by view '%s', %d networks remain out of %d discovered.'' wa)
              = (success, w1)"
  shows "\<exists>w'. main_update view task_ref w = Some (Inr (), w') \<and>
     (if \<not> success
      then prints (new_events w w') =
             [''An error occurred while updating the current discovery. Please check discovery.log.'']
      else \<exists>started w2 final.
             start_current_discovery_task task_ref w1 = Some (started, w2) \<and>
             tasks w' = tasks w2 \<and>
             (if started
              then prints (new_events w w') = [''Current discovery started successfully.'', final]
                   \<and> (\<exists>t \<in> set (tasks w2). t_ref t = task_ref)
                   \<and> (\<forall>t \<in> set (tasks w2). t_ref t = task_ref \<longrightarrow>
                         t_config t = \<lparr>p_mode = ''ICMP'', p_network_view = view,
                                       p_networks = nets,
                                       p_ping_retries = 5, p_ping_timeout = 1500\<rparr>)
                   \<and> map_option upper (fst (states w2 task_ref)) = Some ''RUNNING''
              else prints (new_events w w') =
                     [''An error occurred while starting current discovery. Please check discovery.log.'',
                      final]))"
proof -
  let ?pl = "\<lparr>p_mode = ''ICMP'', p_network_view = view, p_networks = nets,
               p_ping_retries = 5, p_ping_timeout = 1500\<rparr>"
  let ?wb = "logging_info
               ''After filtering by view '%s', %d networks remain out of %d discovered.'' wa"
  have dne: "discovered \<noteq> []"
    using flt ne filter_by_view_Nil by auto
  have wa: "wa = snd (get_discovery_enabled_networks w)" using nets by simp
  have w1: "w1 = snd (update_current_discovery_task view task_ref nets ''ICMP'' 5 1500 ?wb)"
    using upd by simp
  have succ: "success = (\<not> fails w (Suc (era w)))"
    using upd update_current_facts(1) [of view task_ref nets "''ICMP''" 5 1500 ?wb]
    by (simp add: wa log_facts networks_facts)
  obtain es1 where tr1: "trace w1 = trace w @ es1" and pr1: "prints es1 = []"
    by (simp add: w1 wa update_current_facts log_facts networks_facts)
  have tasks1: "tasks w1 = (if success then map (put_task task_ref ?pl) (tasks w) else tasks w)"
    by (simp add: w1 wa succ update_current_facts log_facts networks_facts)
  show ?thesis
  proof (cases success)
    case False
    let ?w' = "print ''An error occurred while updating the current discovery. Please check discovery.log.'' w1"
    have "main_update view task_ref w = Some (Inr (), ?w')"
      using False
      by (simp only: main_update_def nets flt ne dne upd Let_def prod.case option.case
            if_True if_False not_False_eq_True not_True_eq_False simp_thms)
    moreover have "new_events w ?w' = es1 @ [Print ''An error occurred while updating the current discovery. Please check discovery.log.'']"
      by (rule new_events_append) (simp add: log_facts tr1)
    ultimately show ?thesis using False pr1
      by (simp add: prints_append)
  next
    case True
    from start_effects [of task_ref w1] obtain started w2 where
      st: "start_current_discovery_task task_ref w1 = Some (started, w2)"
      and q: "quiet_run w1 w2"
      and run: "started \<longrightarrow> find (\<lambda>t. t_ref t = task_ref) (tasks w2) \<noteq> None
                \<and> map_option upper (fst (states w2 task_ref)) = Some ''RUNNING''"
      by blast
    from q obtain es2 where tr2: "trace w2 = trace w1 @ es2" and pr2: "prints es2 = []"
      and tasks2: "tasks w2 = tasks w1"
      by (auto simp: quiet_run_def same_platform_def)
    let ?m = "if started then ''Current discovery started successfully.''
              else ''An error occurred while starting current discovery. Please check discovery.log.''"
    let ?w5 = "if started then print ''Current discovery started successfully.'' w2
               else print ''An error occurred while starting current discovery. Please check discovery.log.'' w2"
    let ?st = "fst (fst (get_current_discovery_status task_ref ?w5))"
    let ?w6 = "snd (get_current_discovery_status task_ref ?w5)"
    let ?final = "if truthy ?st then ''Final Current Discovery State: '' @ the ?st
                  else ''Could not retrieve final discovery status. Check discovery.log for details.''"
    let ?w7 = "if truthy ?st
               then print (''Final Current Discovery State: '' @ the ?st)
                      (logging_info ''Final Current Discovery State: %s'' ?w6)
               else print ''Could not retrieve final discovery status. Check discovery.log for details.''
                      (logging_warning
                         ''Could not retrieve final status for the current discovery task.'' ?w6)"
    let ?w' = "logging_info ''CURRENT_DISCOVERY_SCRIPT: Script finished successfully.'' ?w7"
    have main: "main_update view task_ref w = Some (Inr (), ?w')"
      using True
      by (simp only: main_update_def nets flt ne dne upd st Let_def prod.case option.case
            if_True if_False not_False_eq_True not_True_eq_False simp_thms fst_conv snd_conv
            case_prod_unfold)
    have tr5: "trace ?w5 = trace w @ es1 @ es2 @ [Print ?m]"
      by (simp add: log_facts tr1 tr2)
    have era5: "era ?w5 = era w2" "fails ?w5 = fails w2"
      by (simp_all add: log_facts)
    have tr6: "trace ?w6 = trace w @ es1 @ es2 @ [Print ?m] @ status_events w2 (era w2)"
      by (simp only: status_facts tr5 era5 append_assoc status_events_def)
    have "\<exists>es3. trace ?w' = trace w @ es1 @ es2 @ es3 \<and> prints es3 = [?m, ?final]"
    proof (cases "truthy ?st")
      case True
      then show ?thesis
        by (simp add: log_facts tr6 status_events_def prints_append del: prints.simps)
           (simp add: prints_append)
    next
      case False
      then show ?thesis
        by (simp add: log_facts tr6 status_events_def prints_append del: prints.simps)
           (simp add: prints_append)
    qed
    then obtain es3 where tr: "trace ?w' = trace w @ es1 @ es2 @ es3"
      and pr3: "prints es3 = [?m, ?final]" by blast
    have ne': "new_events w ?w' = es1 @ es2 @ es3"
      by (rule new_events_append) (rule tr)
    have pr: "prints (new_events w ?w') = [?m, ?final]"
      by (simp only: ne' prints_append pr1 pr2 pr3 append_Nil)
    have tk: "tasks ?w' = tasks w2"
      by (simp add: log_facts status_facts)
    have cfg: "\<forall>t \<in> set (tasks w2). t_ref t = task_ref \<longrightarrow> t_config t = ?pl"
      using True by (auto simp: tasks2 tasks1 put_task_ref put_task_config)
    have ex: "started \<longrightarrow> (\<exists>t \<in> set (tasks w2). t_ref t = task_ref)"
      using run by (auto dest: find_holds find_in_set)
    define w' where "w' = ?w'"
    define final where "final = ?final"
    have A: "main_update view task_ref w = Some (Inr (), w')"
      and B: "tasks w' = tasks w2"
      and C: "prints (new_events w w') =
                [if started then ''Current discovery started successfully.''
                 else ''An error occurred while starting current discovery. Please check discovery.log.'',
                 final]"
      unfolding w'_def final_def using main tk pr by blast+
    show ?thesis
    proof (cases started)
      case s: True
      with C have C': "prints (new_events w w') = [''Current discovery started successfully.'', final]"
        by simp
      from s run ex have D: "\<exists>t \<in> set (tasks w2). t_ref t = task_ref"
        and E: "map_option upper (fst (states w2 task_ref)) = Some ''RUNNING''" by blast+
      from A B C' D E cfg st True s show ?thesis
        by (intro exI [where x = w']) (simp del: prints.simps, blast)
    next
      case s: False
      with C have C': "prints (new_events w w') =
          [''An error occurred while starting current discovery. Please check discovery.log.'', final]"
        by simp
      from A B C' st True s show ?thesis
        by (intro exI [where x = w']) (simp del: prints.simps, blast)
    qed
  qed
qed

lemmas world_facts = log_facts sleep_facts http_facts status_facts stop_facts start_new_facts
  networks_facts update_current_facts

lemma cycle_fields:
  "fails cycle_world = (\<lambda>k. False)" "era cycle_world = 0" "now cycle_world = 0"
  "delay cycle_world = (\<lambda>k. 200)"
  "engine cycle_world = (\<lambda>k r. if k = 4 then (Some ''COMPLETE'', None) else (Some ''RUNNING'', None))"
  "tasks cycle_world = [demo_task]"
  by (simp_all add: cycle_world_def demo_world_def)

lemma cycle_networks:
  "fst (get_discovery_enabled_networks cycle_world) = [''network/A/default'', ''network/B/other'']"
  by (simp add: networks_facts cycle_world_def demo_world_def)

lemma cycle_filter:
  "filter_by_view [''network/A/default'', ''network/B/other''] ''default'' = [''network/A/default'']"
  by (simp add: filter_by_view_def endswith_def)

lemma cycle_start:
  "fst (the (start_current_discovery_task ''discoverytask/current''
     (snd (update_current_discovery_task ''default'' ''discoverytask/current''
             [''network/A/default''] ''ICMP'' 5 1500
             (logging_info ''After filtering by view '%s', %d networks remain out of %d discovered.''
                (snd (get_discovery_enabled_networks cycle_world)))))))"
  by (simp add: start_unfold wait_for_discovery_to_stop_def wait_loop_unfold time_time_def
        world_facts cycle_fields state_read_def poll_obs_def is_active_def has_stopped_def
        upper_def upper_char_def active_states_def demo_task_def put_task_def seconds_def
        start_new_value)


theorem reconfigure_and_start_cycle_witness:
  "filter_by_view (fst (get_discovery_enabled_networks cycle_world)) ''default''
     = [''network/A/default'']
   \<and> (\<exists>w' final. main_update ''default'' ''discoverytask/current'' cycle_world = Some (Inr (), w')
         \<and> prints (new_events cycle_world w') = [''Current discovery started successfully.'', final]
         \<and> map (p_networks \<circ> t_config) (tasks w') = [[''network/A/default'']])"
proof -
  let ?n = "get_discovery_enabled_networks cycle_world"
  let ?u = "update_current_discovery_task ''default'' ''discoverytask/current''
             [''network/A/default''] ''ICMP'' 5 1500
             (logging_info ''After filtering by view '%s', %d networks remain out of %d discovered.''
                (snd ?n))"
  have a: "?n = (fst ?n, snd ?n)" by simp
  have b: "filter_by_view (fst ?n) ''default'' = [''network/A/default'']"
    by (simp add: cycle_networks cycle_filter)
  have c: "[''network/A/default''] \<noteq> []" by simp
  have d: "?u = (fst ?u, snd ?u)" by simp
  have e: "fst ?u"
    by (simp add: world_facts cycle_fields)
  from reconfigure_and_start_cycle [OF a b c d] e
  obtain w' started w2 final where
    m: "main_update ''default'' ''discoverytask/current'' cycle_world = Some (Inr (), w')"
    and st: "start_current_discovery_task ''discoverytask/current'' (snd ?u) = Some (started, w2)"
    and tk: "tasks w' = tasks w2"
    and r: "if started
       then prints (new_events cycle_world w') = [''Current discovery started successfully.'', final]
            \<and> (\<exists>t \<in> set (tasks w2). t_ref t = ''discoverytask/current'')
            \<and> (\<forall>t \<in> set (tasks w2). t_ref t = ''discoverytask/current'' \<longrightarrow>
                         t_config t = \<lparr>p_mode = ''ICMP'', p_network_view = ''default'',
                                       p_networks = [''network/A/default''],
                                       p_ping_retries = 5, p_ping_timeout = 1500\<rparr>)
            \<and> map_option upper (fst (states w2 ''discoverytask/current'')) = Some ''RUNNING''
       else prints (new_events cycle_world w') =
                     [''An error occurred while starting current discovery. Please check discovery.log.'',
                      final]"
    by (simp del: prints.simps) blast
  from st cycle_start have started by simp
  from start_effects [of "''discoverytask/current''" "snd ?u"] st
  have "tasks w2 = tasks (snd ?u)"
    by (simp add: quiet_run_def same_platform_def)
  then have "map (p_networks \<circ> t_config) (tasks w2) = [[''network/A/default'']]"
    by (simp add: world_facts cycle_fields demo_task_def put_task_def)
  with m tk r \<open>started\<close> b show ?thesis
    by (simp del: prints.simps)
qed

subsection \<open>The main functions\<close>

lemma views_append: "views (xs @ ys) = views xs @ views ys"
  by (induction xs rule: views.induct) simp_all

lemma views_puts: "views es = map (p_network_view \<circ> snd) (puts es)"
  by (induction es rule: views.induct) simp_all

lemma puts_view_refl: "puts_view V w w"
  by (simp add: puts_view_def)

lemma puts_view_trans: "puts_view V a b \<Longrightarrow> puts_view V b c \<Longrightarrow> puts_view V a c"
  by (auto simp: puts_view_def views_append)

lemma quiet_puts_view: "quiet_run a b \<Longrightarrow> puts_view V a b"
  by (auto simp: quiet_run_def puts_view_def views_puts)

lemma puts_view_new: "puts_view V w w' \<Longrightarrow> set (views (new_events w w')) \<subseteq> {V}"
  by (auto simp: puts_view_def new_events_def)

lemma pv_log:
  "puts_view V w x \<Longrightarrow> puts_view V w (logging_info m x)"
  "puts_view V w x \<Longrightarrow> puts_view V w (logging_warning m x)"
  "puts_view V w x \<Longrightarrow> puts_view V w (logging_error m x)"
  "puts_view V w x \<Longrightarrow> puts_view V w (print m x)"
  by (auto simp: puts_view_def log_facts views_append)

lemma pv_status:
  "puts_view V w x \<Longrightarrow> puts_view V w (snd (get_current_discovery_status r x))"
  "puts_view V w x \<Longrightarrow> puts_view V w (snd (get_discovery_task_status r x))"
  by (auto simp: puts_view_def status_facts status_events_def views_append
        get_discovery_task_status_def)

lemma pv_ops:
  "puts_view V w x \<Longrightarrow> puts_view V w (snd (get_current_discovery_ref x))"
  "puts_view V w x \<Longrightarrow> puts_view V w (snd (get_scheduled_discovery_ref x))"
  "puts_view V w x \<Longrightarrow> puts_view V w (snd (get_discovery_enabled_networks x))"
  "puts_view V w x \<Longrightarrow> puts_view V w (snd (get_network_ref c v x))"
  "puts_view V w x \<Longrightarrow> puts_view V w (snd (prompt_overwrite f x))"
  by (cases f; auto simp: puts_view_def current_ref_facts scheduled_ref_facts networks_facts
        network_ref_facts prompt_facts views_append)+

lemma pv_updates:
  "puts_view V w x \<Longrightarrow>
     puts_view V w (snd (update_current_discovery_task V r ns m pr pt x))"
  "puts_view (cfg_network_view cfg) w x \<Longrightarrow>
     puts_view (cfg_network_view cfg) w (snd (update_scheduled_discovery_task cfg r ns m pr pt x))"
  "puts_view ''GLOBAL'' w x \<Longrightarrow>
     puts_view ''GLOBAL'' w (snd (scheduler_update_scheduled_discovery_task r ns m pr pt x))"
  by (auto simp: puts_view_def update_current_facts update_scheduled_facts
        scheduler_update_facts views_append)

lemma pv_start:
  "puts_view V w x \<Longrightarrow>
     \<exists>res w'. start_current_discovery_task r x = Some (res, w') \<and> puts_view V w w'"
  using start_effects [of r x] by (blast intro: puts_view_trans quiet_puts_view)

lemmas unfold_steps = Let_def prod.case option.case if_True if_False not_False_eq_True
  not_True_eq_False simp_thms fst_conv snd_conv

lemma main_update_skip:
  assumes "get_discovery_enabled_networks x = (discovered, wa)"
    and "filter_by_view discovered V = []"
  shows "\<exists>m. main_update V r x =
           Some (Inr (), print (''No networks found matching view '' @ [CHR 0x27] @ V
                            @ [CHR 0x27] @ ''. Update skipped.'') (logging_info m wa))"
proof (cases "discovered = []")
  case True
  then show ?thesis
    by (simp only: main_update_def assms unfold_steps) blast
next
  case False
  then show ?thesis
    by (simp only: main_update_def assms unfold_steps) blast
qed

lemma main_update_failed:
  assumes "get_discovery_enabled_networks x = (discovered, wa)"
    and "filter_by_view discovered V = nets" and "nets \<noteq> []"
    and "update_current_discovery_task V r nets ''ICMP'' 5 1500
           (logging_info
              ''After filtering by view '%s', %d networks remain out of %d discovered.'' wa)
         = (False, w1)"
  shows "main_update V r x =
           Some (Inr (), print ''An error occurred while updating the current discovery. Please check discovery.log.'' w1)"
proof -
  have "discovered \<noteq> []" using assms(2,3) filter_by_view_Nil by auto
  then show ?thesis
    by (simp only: main_update_def assms unfold_steps)
qed

lemma main_update_started:
  assumes "get_discovery_enabled_networks x = (discovered, wa)"
    and "filter_by_view discovered V = nets" and "nets \<noteq> []"
    and "update_current_discovery_task V r nets ''ICMP'' 5 1500
           (logging_info
              ''After filtering by view '%s', %d networks remain out of %d discovered.'' wa)
         = (True, w1)"
    and "start_current_discovery_task r w1 = Some (started, w2)"
    and "w5 = (if started then print ''Current discovery started successfully.'' w2
               else print ''An error occurred while starting current discovery. Please check discovery.log.'' w2)"
    and "get_current_discovery_status r w5 = (st, w6)"
  shows "main_update V r x =
           Some (Inr (), logging_info ''CURRENT_DISCOVERY_SCRIPT: Script finished successfully.''
             (if truthy (fst st)
              then print (''Final Current Discovery State: '' @ the (fst st))
                     (logging_info ''Final Current Discovery State: %s'' w6)
              else print ''Could not retrieve final discovery status. Check discovery.log for details.''
                     (logging_warning
                        ''Could not retrieve final status for the current discovery task.'' w6)))"
proof -
  have "discovered \<noteq> []" using assms(2,3) filter_by_view_Nil by auto
  then show ?thesis
    by (simp only: main_update_def assms(1-5) assms(6) [symmetric] assms(7) unfold_steps)
qed

lemma main_update_effects:
  assumes "puts_view V w x"
  shows "\<exists>res w'. main_update V r x = Some (res, w') \<and> puts_view V w w'"
proof -
  define wa where "wa = snd (get_discovery_enabled_networks x)"
  define discovered where "discovered = fst (get_discovery_enabled_networks x)"
  define nets where "nets = filter_by_view discovered V"
  have n: "get_discovery_enabled_networks x = (discovered, wa)"
    by (simp add: wa_def discovered_def)
  have pa: "puts_view V w wa"
    unfolding wa_def using assms by (rule pv_ops)
  show ?thesis
  proof (cases "nets = []")
    case True
    from main_update_skip [OF n True [unfolded nets_def], of r] pa show ?thesis
      by (auto intro: pv_log)
  next
    case False
    define wb where "wb = logging_info
       ''After filtering by view '%s', %d networks remain out of %d discovered.'' wa"
    define success where "success = fst (update_current_discovery_task V r nets ''ICMP'' 5 1500 wb)"
    define w1 where "w1 = snd (update_current_discovery_task V r nets ''ICMP'' 5 1500 wb)"
    have u: "update_current_discovery_task V r nets ''ICMP'' 5 1500
               (logging_info
                  ''After filtering by view '%s', %d networks remain out of %d discovered.'' wa)
             = (success, w1)"
      by (simp add: success_def w1_def wb_def)
    have p1: "puts_view V w w1"
      unfolding w1_def wb_def using pa by (intro pv_updates pv_log)
    show ?thesis
    proof (cases success)
      case f: False
      from u f have "update_current_discovery_task V r nets ''ICMP'' 5 1500
               (logging_info
                  ''After filtering by view '%s', %d networks remain out of %d discovered.'' wa)
             = (False, w1)" by simp
      from main_update_failed [OF n nets_def [symmetric] False this] p1
      show ?thesis by (auto intro: pv_log)
    next
      case s: True
      from pv_start [OF p1, of r] obtain started w2 where
        st: "start_current_discovery_task r w1 = Some (started, w2)" and p2: "puts_view V w w2"
        by blast
      define w5 where "w5 = (if started
          then print ''Current discovery started successfully.'' w2
          else print ''An error occurred while starting current discovery. Please check discovery.log.'' w2)"
      have p5: "puts_view V w w5"
        unfolding w5_def using p2 by (simp add: pv_log)
      define w6 where "w6 = snd (get_current_discovery_status r w5)"
      define st6 where "st6 = fst (get_current_discovery_status r w5)"
      have s6: "get_current_discovery_status r w5 = (st6, w6)"
        by (simp add: w6_def st6_def)
      have p6: "puts_view V w w6"
        unfolding w6_def using p5 by (rule pv_status)
      from u s have "update_current_discovery_task V r nets ''ICMP'' 5 1500
               (logging_info
                  ''After filtering by view '%s', %d networks remain out of %d discovered.'' wa)
             = (True, w1)" by simp
      from main_update_started [OF n nets_def [symmetric] False this st w5_def s6] p6
      show ?thesis by (auto intro: pv_log)
    qed
  qed
qed


lemma is_active_truthy:
  "is_active x = (truthy x \<and> upper (the x) \<in> set active_states)"
  by (cases x) (simp_all add: is_active_def truthy_def)

lemma main_current_no_task:
  assumes "get_current_discovery_ref
             (logging_info ''CURRENT_DISCOVERY_SCRIPT: Script started.'' w) = (ref, w1)"
    and "\<not> truthy ref"
  shows "main_current V f w =
           Some (Inr (), print ''Could not find 'current' discovery reference. Check discovery.log for details.'' w1)"
  by (simp only: main_current_def assms unfold_steps)

lemma main_current_active:
  assumes "get_current_discovery_ref
             (logging_info ''CURRENT_DISCOVERY_SCRIPT: Script started.'' w) = (Some r, w1)"
    and "r \<noteq> []"
    and "get_current_discovery_status r w1 = (st, w2)"
    and "is_active (fst st)"
    and "w3 = print (''Current discovery state: '' @ the (fst st))
                (logging_info ''Current discovery state: %s'' w2)"
  shows "main_current V f w =
           (case prompt_overwrite f w3 of
              (Inl e, w4) \<Rightarrow> Some (Inl e, w4)
            | (Inr go, w4) \<Rightarrow>
                if \<not> go
                then Some (Inr (), print ''Aborting update. Current discovery is still running/paused.'' w4)
                else main_update V r w4)"
proof -
  have t: "truthy (Some r)" using assms(2) by (simp add: truthy_def)
  have a: "truthy (fst st)" "upper (the (fst st)) \<in> set active_states"
    using assms(4) by (simp_all add: is_active_truthy)
  show ?thesis
    by (simp only: main_current_def assms(1,3) assms(5) [symmetric] t a unfold_steps option.sel)
qed

lemma main_current_inactive:
  assumes "get_current_discovery_ref
             (logging_info ''CURRENT_DISCOVERY_SCRIPT: Script started.'' w) = (Some r, w1)"
    and "r \<noteq> []"
    and "get_current_discovery_status r w1 = (st, w2)"
    and "truthy (fst st)" and "\<not> is_active (fst st)"
  shows "main_current V f w =
           main_update V r (print (''Current discovery state: '' @ the (fst st))
                (logging_info ''Current discovery state: %s'' w2))"
proof -
  have t: "truthy (Some r)" using assms(2) by (simp add: truthy_def)
  have a: "upper (the (fst st)) \<notin> set active_states"
    using assms(4,5) by (simp_all add: is_active_truthy)
  show ?thesis
    by (simp only: main_current_def assms(1,3,4) t a unfold_steps option.sel)
qed

lemma main_current_unknown:
  assumes "get_current_discovery_ref
             (logging_info ''CURRENT_DISCOVERY_SCRIPT: Script started.'' w) = (Some r, w1)"
    and "r \<noteq> []"
    and "get_current_discovery_status r w1 = (st, w2)"
    and "\<not> truthy (fst st)"
  shows "main_current V f w =
           main_update V r (logging_warning
              ''Could not retrieve status for current discovery. Proceeding with update...'' w2)"
proof -
  have t: "truthy (Some r)" using assms(2) by (simp add: truthy_def)
  show ?thesis
    by (simp only: main_current_def assms(1,3,4) t unfold_steps option.sel)
qed

lemma main_current_effects:
  "\<exists>res w'. main_current V f w = Some (res, w') \<and> puts_view V w w'"
proof -
  define w0 where "w0 = logging_info ''CURRENT_DISCOVERY_SCRIPT: Script started.'' w"
  define ref where "ref = fst (get_current_discovery_ref w0)"
  define w1 where "w1 = snd (get_current_discovery_ref w0)"
  have l: "get_current_discovery_ref
             (logging_info ''CURRENT_DISCOVERY_SCRIPT: Script started.'' w) = (ref, w1)"
    by (simp add: ref_def w1_def w0_def)
  have p1: "puts_view V w w1"
    unfolding w1_def w0_def by (intro pv_ops pv_log puts_view_refl)
  show ?thesis
  proof (cases "truthy ref")
    case False
    from main_current_no_task [OF l False] p1 show ?thesis
      by (auto intro: pv_log)
  next
    case True
    then obtain r where r: "ref = Some r" "r \<noteq> []"
      by (cases ref) (auto simp: truthy_def)
    define st where "st = fst (get_current_discovery_status r w1)"
    define w2 where "w2 = snd (get_current_discovery_status r w1)"
    have s: "get_current_discovery_status r w1 = (st, w2)"
      by (simp add: st_def w2_def)
    have p2: "puts_view V w w2"
      unfolding w2_def using p1 by (rule pv_status)
    show ?thesis
    proof (cases "truthy (fst st)")
      case False
      have "puts_view V w (logging_warning
              ''Could not retrieve status for current discovery. Proceeding with update...'' w2)"
        using p2 by (rule pv_log)
      from main_current_unknown [OF l [unfolded r] r(2) s False, of V f]
        main_update_effects [OF this, where r = r]
      show ?thesis by simp
    next
      case ts: True
      define w3 where "w3 = print (''Current discovery state: '' @ the (fst st))
                (logging_info ''Current discovery state: %s'' w2)"
      have p3: "puts_view V w w3"
        unfolding w3_def using p2 by (intro pv_log)
      show ?thesis
      proof (cases "is_active (fst st)")
        case False
        from main_current_inactive [OF l [unfolded r] r(2) s ts False, of V f]
          main_update_effects [OF p3, where r = r]
        show ?thesis by (simp add: w3_def)
      next
        case act: True
        define pr where "pr = fst (prompt_overwrite f w3)"
        define w4 where "w4 = snd (prompt_overwrite f w3)"
        have p: "prompt_overwrite f w3 = (pr, w4)" by (simp add: pr_def w4_def)
        have p4: "puts_view V w w4"
          unfolding w4_def using p3 by (rule pv_ops)
        have m: "main_current V f w =
           (case pr of
              Inl e \<Rightarrow> Some (Inl e, w4)
            | Inr go \<Rightarrow>
                if \<not> go
                then Some (Inr (), print ''Aborting update. Current discovery is still running/paused.'' w4)
                else main_update V r w4)"
          using main_current_active [OF l [unfolded r] r(2) s act w3_def, of V f]
          by (simp only: p prod.case)
        show ?thesis
        proof (cases pr)
          case (Inl e)
          with m p4 show ?thesis by simp
        next
          case (Inr go)
          show ?thesis
          proof (cases go)
            case True
            with m Inr main_update_effects [OF p4, where r = r] show ?thesis by simp
          next
            case False
            with m Inr p4 show ?thesis by (simp add: pv_log)
          qed
        qed
      qed
    qed
  qed
qed


text \<open>
  C8. Immediate mode without the force flag, when the task was found and its state reads
  RUNNING, PAUSED or END_PENDING: the run returns; the confirmation prompt is among its
  events and no control action or full update comes before it; if the answer is anything
  but \<^verbatim>\<open>y\<close> (after stripping and lower-casing) the only event after the prompt is
  the line saying the update is aborted, so no stop, update or start call is issued; at
  end of input the run ends by \<^verbatim>\<open>EOFError\<close> right after the prompt.
\<close>

theorem immediate_mode_asks_before_any_change:
  assumes l: "get_current_discovery_ref
                (logging_info ''CURRENT_DISCOVERY_SCRIPT: Script started.'' w) = (Some task_ref, w1)"
    and r: "task_ref \<noteq> []"
    and s: "get_current_discovery_status task_ref w1 = (st, w2)"
    and act: "is_active (fst st)"
  shows "\<exists>res w' pre rest.
           main_current view False w = Some (res, w')
           \<and> new_events w w' =
               pre @ [Input ''Current discovery is running or paused. Do you want to stop it and run a new discovery? (y/n): '']
               @ rest
           \<and> \<not> list_ex is_change pre
           \<and> (case stdin w of
                 [] \<Rightarrow> res = Inl EOFError \<and> rest = []
               | answer # others \<Rightarrow>
                   lower (strip answer) \<noteq> ''y'' \<longrightarrow>
                     res = Inr ()
                     \<and> rest = [Print ''Aborting update. Current discovery is still running/paused.''])"
proof -
  let ?q = "''Current discovery is running or paused. Do you want to stop it and run a new discovery? (y/n): ''"
  define w3 where "w3 = print (''Current discovery state: '' @ the (fst st))
                (logging_info ''Current discovery state: %s'' w2)"
  define pr where "pr = fst (prompt_overwrite False w3)"
  define w4 where "w4 = snd (prompt_overwrite False w3)"
  have w1: "w1 = snd (get_current_discovery_ref
                (logging_info ''CURRENT_DISCOVERY_SCRIPT: Script started.'' w))"
    using l by simp
  have w2: "w2 = snd (get_current_discovery_status task_ref w1)" using s by simp
  have "\<exists>pre. trace w3 = trace w @ pre \<and> \<not> list_ex is_change pre"
    by (simp add: w3_def w2 w1 log_facts status_facts current_ref_facts status_events_def)
  then obtain pre where tr3: "trace w3 = trace w @ pre" and quiet: "\<not> list_ex is_change pre"
    by blast
  have tr4: "trace w4 = trace w @ pre @ [Input ?q]"
    by (simp add: w4_def prompt_facts tr3)
  have inp: "stdin w3 = stdin w"
    by (simp add: w3_def w2 w1 log_facts status_facts current_ref_facts)
  have prv: "pr = (case stdin w of [] \<Rightarrow> Inl EOFError | a # _ \<Rightarrow> Inr (lower (strip a) = ''y''))"
    by (simp add: pr_def prompt_facts inp)
  have p: "prompt_overwrite False w3 = (pr, w4)" by (simp add: pr_def w4_def)
  have m: "main_current view False w =
           (case pr of
              Inl e \<Rightarrow> Some (Inl e, w4)
            | Inr go \<Rightarrow>
                if \<not> go
                then Some (Inr (), print ''Aborting update. Current discovery is still running/paused.'' w4)
                else main_update view task_ref w4)"
    using main_current_active [OF l r s act w3_def, of view False]
    by (simp only: p prod.case)
  show ?thesis
  proof (cases "stdin w")
    case Nil
    with prv m have "main_current view False w = Some (Inl EOFError, w4)" by simp
    moreover have "new_events w w4 = pre @ [Input ?q] @ []"
      by (rule new_events_append) (simp add: tr4)
    ultimately show ?thesis using quiet Nil
      by (intro exI [where x = "Inl EOFError"] exI [where x = w4] exI [where x = pre]
            exI [where x = "[]"]) simp
  next
    case (Cons answer others)
    show ?thesis
    proof (cases "lower (strip answer) = ''y''")
      case False
      let ?w' = "print ''Aborting update. Current discovery is still running/paused.'' w4"
      from False Cons prv m have "main_current view False w = Some (Inr (), ?w')" by simp
      moreover have "new_events w ?w' = pre @ [Input ?q]
          @ [Print ''Aborting update. Current discovery is still running/paused.'']"
        by (rule new_events_append) (simp add: log_facts tr4)
      ultimately show ?thesis using quiet Cons
        by (intro exI [where x = "Inr ()"] exI [where x = ?w'] exI [where x = pre]
            exI [where x = "[Print ''Aborting update. Current discovery is still running/paused.'']"])
           simp
    next
      case True
      from main_update_effects [OF puts_view_refl, where V = view and w = w4 and r = task_ref]
      obtain res w' es where mu: "main_update view task_ref w4 = Some (res, w')"
        and es: "trace w' = trace w4 @ es"
        by (auto simp: puts_view_def)
      from True Cons prv m mu have "main_current view False w = Some (res, w')" by simp
      moreover have "new_events w w' = pre @ [Input ?q] @ es"
        by (rule new_events_append) (simp add: es tr4)
      ultimately show ?thesis using quiet Cons True
        by (intro exI [where x = res] exI [where x = w'] exI [where x = pre]
            exI [where x = es]) simp
    qed
  qed
qed

theorem immediate_mode_asks_before_any_change_witness:
  "\<exists>w'. main_current ''default'' False refusing_world = Some (Inr (), w')
        \<and> \<not> list_ex is_change (new_events refusing_world w')
        \<and> Input ''Current discovery is running or paused. Do you want to stop it and run a new discovery? (y/n): ''
            \<in> set (new_events refusing_world w')"
proof -
  let ?w0 = "logging_info ''CURRENT_DISCOVERY_SCRIPT: Script started.'' refusing_world"
  let ?l = "get_current_discovery_ref ?w0"
  let ?s = "get_current_discovery_status ''discoverytask/current'' (snd ?l)"
  have f: "fails refusing_world = (\<lambda>k. False)" "era refusing_world = 0"
    "tasks refusing_world = [demo_task]" "stdin refusing_world = ['' N '']"
    "engine refusing_world = (\<lambda>k r. if k = 4 then (Some ''COMPLETE'', None) else (Some ''RUNNING'', None))"
    by (simp_all add: refusing_world_def cycle_world_def demo_world_def)
  have a: "?l = (Some ''discoverytask/current'', snd ?l)"
    by (simp add: prod_eq_iff current_ref_facts log_facts found_task_def f demo_task_def)
  have b: "''discoverytask/current'' \<noteq> []" by simp
  have c: "?s = (fst ?s, snd ?s)" by simp
  have st: "fst (fst ?s) = Some ''RUNNING''"
    by (simp add: status_reads state_read_def current_ref_facts log_facts f demo_task_def)
  have d: "is_active (fst (fst ?s))"
    by (simp add: st is_active_def upper_def upper_char_def active_states_def)
  have e: "lower (strip '' N '') \<noteq> ''y''"
    by (simp add: lower_def lower_char_def strip_def is_space_def)
  from immediate_mode_asks_before_any_change [OF a b c d, of "''default''"] e
  obtain w' pre where
    m: "main_current ''default'' False refusing_world = Some (Inr (), w')"
    and ne: "new_events refusing_world w' =
       pre @ [Input ''Current discovery is running or paused. Do you want to stop it and run a new discovery? (y/n): '']
       @ [Print ''Aborting update. Current discovery is still running/paused.'']"
    and q: "\<not> list_ex is_change pre"
    by (auto simp add: f)
  from m ne q show ?thesis by simp
qed

subsection \<open>Scheduled mode\<close>

lemma main_scheduled_no_task:
  assumes "get_scheduled_discovery_ref w = (ref, w1)" and "\<not> truthy ref"
  shows "main_scheduled cfg w =
           print ''Could not find 'scheduled' discovery reference. Check discovery.log for details.'' w1"
  by (simp only: main_scheduled_def assms unfold_steps)

lemma main_scheduled_selected:
  assumes "get_scheduled_discovery_ref w = (Some r, w1)" and "r \<noteq> []"
    and "get_discovery_enabled_networks w1 = (discovered, w2)"
    and "filter_by_view discovered (cfg_network_view cfg) = nets" and "nets \<noteq> []"
  shows "main_scheduled cfg w =
           main_scheduled_update cfg r nets
             (logging_info
                ''After filtering by view '%s', %d networks remain out of %d discovered.'' w2)"
proof -
  have t: "truthy (Some r)" using assms(2) by (simp add: truthy_def)
  have "discovered \<noteq> []" using assms(4,5) filter_by_view_Nil by auto
  then show ?thesis
    by (simp only: main_scheduled_def assms t unfold_steps option.sel)
qed

lemma main_scheduled_empty:
  assumes "get_scheduled_discovery_ref w = (Some r, w1)" and "r \<noteq> []"
    and "get_discovery_enabled_networks w1 = (discovered, w2)"
    and "filter_by_view discovered (cfg_network_view cfg) = []"
    and "w3 = logging_info
                (if discovered \<noteq> []
                 then ''Discovered %d networks, but none match view '%s'. Will fallback if configured.''
                 else ''No networks found with Network_Discovery=True.'') w2"
  shows "main_scheduled cfg w =
           (if cfg_default_network cfg \<noteq> []
            then (let (fallback_ref, w4) =
                        get_network_ref (cfg_default_network cfg) (cfg_network_view cfg) w3
                  in if truthy fallback_ref
                     then main_scheduled_update cfg r [the fallback_ref]
                            (logging_info ''Using fallback network ref '%s' instead.'' w4)
                     else print ''Fallback network not found; update skipped. Check discovery.log for details.''
                            (logging_error ''Fallback network '%s' not found in view '%s'.'' w4))
            else print ''No networks found; no fallback specified; update skipped.''
                   (logging_info
                      ''No networks found and no fallback network specified. Nothing to update.''
                      w3))"
proof -
  have t: "truthy (Some r)" using assms(2) by (simp add: truthy_def)
  show ?thesis
  proof (cases "discovered = []")
    case True
    then show ?thesis
      by (simp only: main_scheduled_def assms t unfold_steps option.sel)
  next
    case False
    then show ?thesis
      by (simp only: main_scheduled_def assms t unfold_steps option.sel)
  qed
qed



lemma main_scheduler_no_task:
  assumes "get_scheduled_discovery_ref w = (ref, w1)" and "\<not> truthy ref"
  shows "main_scheduler cfg w =
           print ''Could not find 'scheduled' discovery reference. Check discovery.log for details.'' w1"
  by (simp only: main_scheduler_def assms unfold_steps)

lemma main_scheduler_found:
  assumes "get_scheduled_discovery_ref w = (Some r, w1)" and "r \<noteq> []"
    and "get_discovery_enabled_networks w1 = (networks, w2)"
    and "w3 = (if networks \<noteq> []
               then snd (scheduler_update_scheduled_discovery_task r networks ''ICMP'' 5 1500 w2)
               else logging_info ''No networks found to update for the scheduled discovery task.'' w2)"
    and "get_discovery_task_status r w3 = (st, w4)"
  shows "main_scheduler cfg w =
           (if truthy (fst st) then logging_info ''Scheduled Discovery State: %s'' w4
            else logging_warning ''Could not retrieve state/status for the scheduled task.'' w4)"
proof -
  have t: "truthy (Some r)" using assms(2) by (simp add: truthy_def)
  show ?thesis
    by (simp only: main_scheduler_def assms(1,3) assms(4) [symmetric] assms(5) t unfold_steps
          option.sel)
qed




lemma main_scheduled_update_pv:
  assumes "puts_view (cfg_network_view cfg) w x"
  shows "puts_view (cfg_network_view cfg) w (main_scheduled_update cfg r nets x)"
proof -
  define u where "u = update_scheduled_discovery_task cfg r nets ''ICMP'' 5 1500 x"
  define w2 where "w2 = snd (get_discovery_task_status r (snd u))"
  define st where "st = fst (get_discovery_task_status r (snd u))"
  have u: "update_scheduled_discovery_task cfg r nets ''ICMP'' 5 1500 x = (fst u, snd u)"
    by (simp add: u_def)
  have s: "get_discovery_task_status r (snd u) = (st, w2)"
    by (simp add: st_def w2_def)
  have m: "main_scheduled_update cfg r nets x =
     (if \<not> fst u
      then print ''An error occurred while updating the scheduled discovery. Please check discovery.log.''
             (snd u)
      else if truthy (fst st)
           then print (''Scheduled Discovery State: '' @ the (fst st))
                  (logging_info ''Scheduled Discovery State: %s'' w2)
           else print ''Could not retrieve scheduled discovery status. Check discovery.log for details.''
                  (logging_warning ''Could not retrieve state/status for the scheduled task.'' w2))"
    by (simp only: main_scheduled_update_def u s unfold_steps)
  have pu: "puts_view (cfg_network_view cfg) w (snd u)"
    unfolding u_def using assms by (rule pv_updates)
  have p2: "puts_view (cfg_network_view cfg) w w2"
    unfolding w2_def using pu by (rule pv_status)
  show ?thesis
    unfolding m using pu p2 by (simp add: pv_log)
qed

lemma main_scheduled_pv: "puts_view (cfg_network_view cfg) w (main_scheduled cfg w)"
proof -
  let ?V = "cfg_network_view cfg"
  define ref where "ref = fst (get_scheduled_discovery_ref w)"
  define w1 where "w1 = snd (get_scheduled_discovery_ref w)"
  have l: "get_scheduled_discovery_ref w = (ref, w1)" by (simp add: ref_def w1_def)
  have p1: "puts_view ?V w w1"
    unfolding w1_def by (intro pv_ops puts_view_refl)
  show ?thesis
  proof (cases "truthy ref")
    case False
    from main_scheduled_no_task [OF l False, of cfg] p1 show ?thesis
      by (simp add: pv_log)
  next
    case True
    then obtain r where r: "ref = Some r" "r \<noteq> []"
      by (cases ref) (auto simp: truthy_def)
    define discovered where "discovered = fst (get_discovery_enabled_networks w1)"
    define w2 where "w2 = snd (get_discovery_enabled_networks w1)"
    have n: "get_discovery_enabled_networks w1 = (discovered, w2)"
      by (simp add: discovered_def w2_def)
    have p2: "puts_view ?V w w2"
      unfolding w2_def using p1 by (rule pv_ops)
    define nets where "nets = filter_by_view discovered ?V"
    show ?thesis
    proof (cases "nets = []")
      case False
      from main_scheduled_selected [OF l [unfolded r] r(2) n nets_def [symmetric] False]
      show ?thesis
        using p2 by (simp add: main_scheduled_update_pv pv_log)
    next
      case True
      define w3 where "w3 = logging_info
                (if discovered \<noteq> []
                 then ''Discovered %d networks, but none match view '%s'. Will fallback if configured.''
                 else ''No networks found with Network_Discovery=True.'') w2"
      have p3: "puts_view ?V w w3"
        unfolding w3_def using p2 by (rule pv_log)
      define fb where "fb = fst (get_network_ref (cfg_default_network cfg) ?V w3)"
      define w4 where "w4 = snd (get_network_ref (cfg_default_network cfg) ?V w3)"
      have g: "get_network_ref (cfg_default_network cfg) ?V w3 = (fb, w4)"
        by (simp add: fb_def w4_def)
      have p4: "puts_view ?V w w4"
        unfolding w4_def using p3 by (rule pv_ops)
      from main_scheduled_empty [OF l [unfolded r] r(2) n True [unfolded nets_def] w3_def]
      have "main_scheduled cfg w =
           (if cfg_default_network cfg \<noteq> []
            then (if truthy fb
                  then main_scheduled_update cfg r [the fb]
                            (logging_info ''Using fallback network ref '%s' instead.'' w4)
                  else print ''Fallback network not found; update skipped. Check discovery.log for details.''
                            (logging_error ''Fallback network '%s' not found in view '%s'.'' w4))
            else print ''No networks found; no fallback specified; update skipped.''
                   (logging_info
                      ''No networks found and no fallback network specified. Nothing to update.''
                      w3))"
        by (simp only: g unfold_steps)
      then show ?thesis
        using p3 p4 by (simp add: main_scheduled_update_pv pv_log)
    qed
  qed
qed

lemma main_scheduler_pv: "puts_view ''GLOBAL'' w (main_scheduler cfg w)"
proof -
  define ref where "ref = fst (get_scheduled_discovery_ref w)"
  define w1 where "w1 = snd (get_scheduled_discovery_ref w)"
  have l: "get_scheduled_discovery_ref w = (ref, w1)" by (simp add: ref_def w1_def)
  have p1: "puts_view ''GLOBAL'' w w1"
    unfolding w1_def by (intro pv_ops puts_view_refl)
  show ?thesis
  proof (cases "truthy ref")
    case False
    from main_scheduler_no_task [OF l False, of cfg] p1 show ?thesis
      by (simp add: pv_log)
  next
    case True
    then obtain r where r: "ref = Some r" "r \<noteq> []"
      by (cases ref) (auto simp: truthy_def)
    define networks where "networks = fst (get_discovery_enabled_networks w1)"
    define w2 where "w2 = snd (get_discovery_enabled_networks w1)"
    have n: "get_discovery_enabled_networks w1 = (networks, w2)"
      by (simp add: networks_def w2_def)
    have p2: "puts_view ''GLOBAL'' w w2"
      unfolding w2_def using p1 by (rule pv_ops)
    define w3 where "w3 = (if networks \<noteq> []
               then snd (scheduler_update_scheduled_discovery_task r networks ''ICMP'' 5 1500 w2)
               else logging_info ''No networks found to update for the scheduled discovery task.'' w2)"
    have p3: "puts_view ''GLOBAL'' w w3"
      unfolding w3_def using p2 by (simp add: pv_updates pv_log)
    define st where "st = fst (get_discovery_task_status r w3)"
    define w4 where "w4 = snd (get_discovery_task_status r w3)"
    have s: "get_discovery_task_status r w3 = (st, w4)" by (simp add: st_def w4_def)
    have p4: "puts_view ''GLOBAL'' w w4"
      unfolding w4_def using p3 by (rule pv_status)
    from main_scheduler_found [OF l [unfolded r] r(2) n w3_def s, of cfg] p4
    show ?thesis by (simp add: pv_log)
  qed
qed

text \<open>
  C5 (as amended). Every full update issued by \<^verbatim>\<open>current-discovery.py\<close> carries the
  network view given as argument, every full update issued by
  \<^verbatim>\<open>scheduled-discovery.py\<close> the configured view, and every full update issued by
  \<^verbatim>\<open>scheduler.py\<close> the fixed view \<^verbatim>\<open>GLOBAL\<close>, whatever the configuration says.
\<close>

theorem update_view_per_script:
  "(\<exists>res w'. main_current view force w = Some (res, w')
       \<and> set (views (new_events w w')) \<subseteq> {view})
   \<and> set (views (new_events w (main_scheduled cfg w))) \<subseteq> {cfg_network_view cfg}
   \<and> set (views (new_events w (main_scheduler cfg w))) \<subseteq> {''GLOBAL''}"
  using main_current_effects [of view force w] main_scheduled_pv [of cfg w]
    main_scheduler_pv [of w cfg]
  by (blast dest: puts_view_new)


lemma sched_fields:
  "fails sched_world = (\<lambda>k. False)" "era sched_world = 0" "trace sched_world = []"
  "tasks sched_world = [sched_task]"
  "inventory sched_world =
          [\<lparr>n_ref = ''network/A/default'', n_cidr = ''10.0.0.0/24'', n_view = ''default'',
            n_discovery = Some ''True''\<rparr>,
           \<lparr>n_ref = ''network/C/lab'', n_cidr = ''192.168.0.0/24'', n_view = ''lab'',
            n_discovery = None\<rparr>]"
  by (simp_all add: sched_world_def demo_world_def)

lemma sched_located:
  "get_scheduled_discovery_ref sched_world
     = (Some ''discoverytask/scheduled'', snd (get_scheduled_discovery_ref sched_world))"
  by (simp add: prod_eq_iff scheduled_ref_facts found_task_def sched_fields sched_task_def
        demo_task_def)

lemma sched_networks:
  "get_discovery_enabled_networks (snd (get_scheduled_discovery_ref sched_world))
     = ([''network/A/default''],
        snd (get_discovery_enabled_networks (snd (get_scheduled_discovery_ref sched_world))))"
  by (simp add: prod_eq_iff networks_facts scheduled_ref_facts sched_fields)






text \<open>
  C5 as stated fails for \<^verbatim>\<open>scheduler.py\<close>: with the view \<^verbatim>\<open>lab\<close> configured, the
  update it issues carries the view \<^verbatim>\<open>GLOBAL\<close>.
\<close>

theorem scheduler_view_counterexample:
  "views (new_events sched_world (main_scheduler lab_config sched_world)) = [''GLOBAL'']
   \<and> cfg_network_view lab_config = ''lab''"
proof -
  let ?w2 = "snd (get_discovery_enabled_networks (snd (get_scheduled_discovery_ref sched_world)))"
  define w3 where "w3 = (if [''network/A/default''] \<noteq> []
               then snd (scheduler_update_scheduled_discovery_task ''discoverytask/scheduled''
                           [''network/A/default''] ''ICMP'' 5 1500 ?w2)
               else logging_info ''No networks found to update for the scheduled discovery task.'' ?w2)"
  let ?s = "get_discovery_task_status ''discoverytask/scheduled'' w3"
  have s: "?s = (fst ?s, snd ?s)" by simp
  note m = main_scheduler_found [OF sched_located _ sched_networks w3_def s, of lab_config]
  have "trace (snd ?s) =
      [Http GetTasks True, Log INFO ''Found scheduled discovery task ref: %s'',
       Http GetNetworks True, Log INFO ''Found %d networks with Network_Discovery=True'',
       Log INFO ''Overwriting scheduled discovery '%s' with %d networks.'',
       Http (PutTask ''discoverytask/scheduled''
               \<lparr>p_mode = ''ICMP'', p_network_view = ''GLOBAL'',
                p_networks = [''network/A/default''],
                p_ping_retries = 5, p_ping_timeout = 1500\<rparr>) True,
       Log INFO ''Scheduled discovery updated successfully. HTTP code: %d'',
       Http GetTaskStatus True]"
    by (simp add: w3_def get_discovery_task_status_def status_facts scheduler_update_facts
          networks_facts scheduled_ref_facts sched_fields status_events_def found_task_def
          sched_task_def demo_task_def)
  then have "views (trace (main_scheduler lab_config sched_world)) = [''GLOBAL'']"
    using m by (cases "truthy (fst (fst ?s))") (simp_all add: log_facts)
  then show ?thesis
    by (simp add: new_events_def sched_fields lab_config_def)
qed

theorem update_view_per_script_witness:
  "set (views (new_events sched_world (main_scheduled lab_config sched_world))) \<subseteq> {''lab''}
   \<and> set (views (new_events sched_world (main_scheduler lab_config sched_world))) \<subseteq> {''GLOBAL''}"
  using update_view_per_script [of "''lab''" False sched_world lab_config]
  by (simp add: lab_config_def)

subsection \<open>Transport failures\<close>

lemma https_append: "https (xs @ ys) = https xs @ https ys"
  by (induction xs rule: https.induct) simp_all

lemma status_value_failed:
  "fails w (era w) \<Longrightarrow> fst (get_current_discovery_status r w) = (None, None)"
  by (simp add: get_current_discovery_status_def case_prod_unfold Let_def http_facts)

lemma failed_reads:
  assumes f: "fails w (era w)"
  shows "fst (get_current_discovery_ref w) = None
      \<and> new_events w (snd (get_current_discovery_ref w)) =
          [Http GetTasks False, Log ERROR ''Error retrieving discovery tasks: %s'']"
    and "fst (get_scheduled_discovery_ref w) = None
      \<and> new_events w (snd (get_scheduled_discovery_ref w)) =
          [Http GetTasks False, Log ERROR ''Error retrieving discovery tasks: %s'']"
    and "fst (get_current_discovery_status r w) = (None, None)
      \<and> new_events w (snd (get_current_discovery_status r w)) =
          [Http GetTaskStatus False, Log ERROR ''Error retrieving discovery task status: %s'']"
    and "fst (get_discovery_enabled_networks w) = []
      \<and> new_events w (snd (get_discovery_enabled_networks w)) =
          [Http GetNetworks False, Log ERROR ''Error retrieving network objects: %s'']"
    and "fst (get_network_ref c v w) = None
      \<and> new_events w (snd (get_network_ref c v w)) =
          [Http (GetNetworkByCidr c v) False,
           Log ERROR ''Error retrieving network ref for %s: %s'']"
  using f
  by (simp_all add: new_events_append current_ref_facts scheduled_ref_facts status_facts networks_facts
        network_ref_facts found_task_def found_network_def status_value_failed
        status_events_def)

lemma failed_changes:
  assumes f: "fails w (era w)"
  shows "fst (stop_current_discovery_task r w) = False
      \<and> new_events w (snd (stop_current_discovery_task r w)) =
          [Log INFO ''Stopping current discovery (END): %s'',
           Http (PostControl r END) False,
           Log ERROR ''Error ending current discovery: %s'']"
    and "fst (start_new_discovery r w) = False
      \<and> new_events w (snd (start_new_discovery r w)) =
          [Log INFO ''Starting current discovery: %s'',
           Http (PostControl r START) False,
           Log ERROR ''Error starting current discovery: %s'']"
    and "fst (update_current_discovery_task v r ns m pr pt w) = False
      \<and> new_events w (snd (update_current_discovery_task v r ns m pr pt w)) =
          [Log INFO ''Updating current discovery '%s' with %d networks in view '%s'.'',
           Http (PutTask r \<lparr>p_mode = m, p_network_view = v, p_networks = ns,
                             p_ping_retries = pr, p_ping_timeout = pt\<rparr>) False,
           Log ERROR ''Error updating current discovery with new networks: %s'']"
    and "fst (update_scheduled_discovery_task cfg r ns m pr pt w) = False
      \<and> new_events w (snd (update_scheduled_discovery_task cfg r ns m pr pt w)) =
          [Log INFO ''Overwriting scheduled discovery '%s' with %d networks in view '%s'.'',
           Http (PutTask r \<lparr>p_mode = m, p_network_view = cfg_network_view cfg, p_networks = ns,
                             p_ping_retries = pr, p_ping_timeout = pt\<rparr>) False,
           Log ERROR ''Error updating scheduled discovery with new networks: %s'']"
    and "new_events w (snd (scheduler_update_scheduled_discovery_task r ns m pr pt w)) =
          [Log INFO ''Overwriting scheduled discovery '%s' with %d networks.'',
           Http (PutTask r \<lparr>p_mode = m, p_network_view = ''GLOBAL'', p_networks = ns,
                             p_ping_retries = pr, p_ping_timeout = pt\<rparr>) False,
           Log ERROR ''Error updating scheduled discovery with new networks: %s'']"
    and "new_events w (snd (start_scheduled_discovery_task r w)) =
          [Log INFO ''Starting scheduled discovery: %s'',
           Http (PostControl r START) False,
           Log ERROR ''Error starting scheduled discovery task: %s'']"
  using f
  by (simp_all add: new_events_append stop_facts start_new_value start_new_trace update_current_facts
        update_scheduled_facts scheduler_update_facts start_scheduled_facts)

lemma failed_callers:
  assumes f: "fails w (era w)"
  shows "main_current view force w =
           Some (Inr (), print ''Could not find 'current' discovery reference. Check discovery.log for details.''
                   (snd (get_current_discovery_ref
                           (logging_info ''CURRENT_DISCOVERY_SCRIPT: Script started.'' w))))"
    and "main_scheduled cfg w =
           print ''Could not find 'scheduled' discovery reference. Check discovery.log for details.''
             (snd (get_scheduled_discovery_ref w))"
    and "main_scheduler cfg w =
           print ''Could not find 'scheduled' discovery reference. Check discovery.log for details.''
             (snd (get_scheduled_discovery_ref w))"
    and "main_update view r w =
           Some (Inr (), print (''No networks found matching view '' @ [CHR 0x27] @ view
                            @ [CHR 0x27] @ ''. Update skipped.'')
                   (logging_info ''No networks found with Network_Discovery=True.''
                      (snd (get_discovery_enabled_networks w))))"
    and "main_scheduled_update cfg r ns w =
           print ''An error occurred while updating the scheduled discovery. Please check discovery.log.''
             (snd (update_scheduled_discovery_task cfg r ns ''ICMP'' 5 1500 w))"
proof -
  let ?w0 = "logging_info ''CURRENT_DISCOVERY_SCRIPT: Script started.'' w"
  have "fails ?w0 (era ?w0)" using f by (simp add: log_facts)
  then have a: "get_current_discovery_ref ?w0 = (None, snd (get_current_discovery_ref ?w0))"
    by (simp add: prod_eq_iff current_ref_facts found_task_def)
  have t: "\<not> truthy None" by (simp add: truthy_def)
  from main_current_no_task [OF a t]
  show "main_current view force w =
           Some (Inr (), print ''Could not find 'current' discovery reference. Check discovery.log for details.''
                   (snd (get_current_discovery_ref ?w0)))" .
  have b: "get_scheduled_discovery_ref w = (None, snd (get_scheduled_discovery_ref w))"
    using f by (simp add: prod_eq_iff scheduled_ref_facts found_task_def)
  from main_scheduled_no_task [OF b t]
  show "main_scheduled cfg w =
           print ''Could not find 'scheduled' discovery reference. Check discovery.log for details.''
             (snd (get_scheduled_discovery_ref w))" .
  from main_scheduler_no_task [OF b t]
  show "main_scheduler cfg w =
           print ''Could not find 'scheduled' discovery reference. Check discovery.log for details.''
             (snd (get_scheduled_discovery_ref w))" .
  define wn where "wn = snd (get_discovery_enabled_networks w)"
  have c: "get_discovery_enabled_networks w = ([], wn)"
    using f by (simp add: prod_eq_iff networks_facts wn_def)
  show "main_update view r w =
           Some (Inr (), print (''No networks found matching view '' @ [CHR 0x27] @ view
                            @ [CHR 0x27] @ ''. Update skipped.'')
                   (logging_info ''No networks found with Network_Discovery=True.''
                      (snd (get_discovery_enabled_networks w))))"
    unfolding wn_def [symmetric]
    by (simp only: main_update_def c unfold_steps)
  define wu where "wu = snd (update_scheduled_discovery_task cfg r ns ''ICMP'' 5 1500 w)"
  have d: "update_scheduled_discovery_task cfg r ns ''ICMP'' 5 1500 w = (False, wu)"
    using f by (simp add: prod_eq_iff update_scheduled_facts wu_def)
  show "main_scheduled_update cfg r ns w =
           print ''An error occurred while updating the scheduled discovery. Please check discovery.log.''
             (snd (update_scheduled_discovery_task cfg r ns ''ICMP'' 5 1500 w))"
    unfolding wu_def [symmetric]
    by (simp only: main_scheduled_update_def d unfold_steps)
qed

lemma scheduler_goes_on:
  assumes l: "get_scheduled_discovery_ref w = (Some sref, w1)" and r: "sref \<noteq> []"
    and n: "get_discovery_enabled_networks w1 = (nets, w2)" and nn: "nets \<noteq> []"
  shows "\<exists>rest. new_events w2 (main_scheduler cfg w) =
           [Log INFO ''Overwriting scheduled discovery '%s' with %d networks.'',
            Http (PutTask sref \<lparr>p_mode = ''ICMP'', p_network_view = ''GLOBAL'', p_networks = nets,
                                 p_ping_retries = 5, p_ping_timeout = 1500\<rparr>)
                 (\<not> fails w2 (era w2)),
            if fails w2 (era w2)
            then Log ERROR ''Error updating scheduled discovery with new networks: %s''
            else Log INFO ''Scheduled discovery updated successfully. HTTP code: %d'',
            Http GetTaskStatus (\<not> fails w2 (Suc (era w2)))] @ rest"
proof -
  define w3 where "w3 = (if nets \<noteq> []
               then snd (scheduler_update_scheduled_discovery_task sref nets ''ICMP'' 5 1500 w2)
               else logging_info ''No networks found to update for the scheduled discovery task.'' w2)"
  define st where "st = fst (get_discovery_task_status sref w3)"
  define w4 where "w4 = snd (get_discovery_task_status sref w3)"
  have s: "get_discovery_task_status sref w3 = (st, w4)" by (simp add: st_def w4_def)
  note m = main_scheduler_found [OF l r n w3_def s, of cfg]
  have w3: "w3 = snd (scheduler_update_scheduled_discovery_task sref nets ''ICMP'' 5 1500 w2)"
    using nn by (simp add: w3_def)
  have "\<exists>rest. trace w4 = trace w2 @
           [Log INFO ''Overwriting scheduled discovery '%s' with %d networks.'',
            Http (PutTask sref \<lparr>p_mode = ''ICMP'', p_network_view = ''GLOBAL'', p_networks = nets,
                                 p_ping_retries = 5, p_ping_timeout = 1500\<rparr>)
                 (\<not> fails w2 (era w2)),
            if fails w2 (era w2)
            then Log ERROR ''Error updating scheduled discovery with new networks: %s''
            else Log INFO ''Scheduled discovery updated successfully. HTTP code: %d'',
            Http GetTaskStatus (\<not> fails w2 (Suc (era w2)))] @ rest"
    by (simp add: w4_def w3 get_discovery_task_status_def status_facts scheduler_update_facts
          status_events_def)
  then obtain rest where t4: "trace w4 = trace w2 @
           [Log INFO ''Overwriting scheduled discovery '%s' with %d networks.'',
            Http (PutTask sref \<lparr>p_mode = ''ICMP'', p_network_view = ''GLOBAL'', p_networks = nets,
                                 p_ping_retries = 5, p_ping_timeout = 1500\<rparr>)
                 (\<not> fails w2 (era w2)),
            if fails w2 (era w2)
            then Log ERROR ''Error updating scheduled discovery with new networks: %s''
            else Log INFO ''Scheduled discovery updated successfully. HTTP code: %d'',
            Http GetTaskStatus (\<not> fails w2 (Suc (era w2)))] @ rest" by blast
  have "\<exists>e. trace (main_scheduler cfg w) = trace w4 @ [e]"
    by (cases "truthy (fst st)") (simp_all add: m log_facts)
  then obtain e where "trace (main_scheduler cfg w) = trace w4 @ [e]" by blast
  then have "new_events w2 (main_scheduler cfg w) =
           [Log INFO ''Overwriting scheduled discovery '%s' with %d networks.'',
            Http (PutTask sref \<lparr>p_mode = ''ICMP'', p_network_view = ''GLOBAL'', p_networks = nets,
                                 p_ping_retries = 5, p_ping_timeout = 1500\<rparr>)
                 (\<not> fails w2 (era w2)),
            if fails w2 (era w2)
            then Log ERROR ''Error updating scheduled discovery with new networks: %s''
            else Log INFO ''Scheduled discovery updated successfully. HTTP code: %d'',
            Http GetTaskStatus (\<not> fails w2 (Suc (era w2)))] @ (rest @ [e])"
    by (intro new_events_append) (simp add: t4)
  then show ?thesis by blast
qed


text \<open>
  C6 (as amended). When the request of an operation fails, the operation returns its
  failure value (\<open>None\<close>, \<open>(None, None)\<close>, the empty list or \<open>False\<close>), has issued
  that one request and nothing else, and has logged one ERROR line after it: no exception
  leaves the operation and nothing is retried. The callers test the value: each
  \<^verbatim>\<open>main\<close> stops with a printed line when the task lookup fails, the immediate
  mode skips the update when the network list cannot be read, the scheduled mode prints
  the update error and reads no state when the update fails. The two mutating operations
  of \<^verbatim>\<open>scheduler.py\<close> log the failure in the same way but return \<open>None\<close> whether
  the request failed or not, and its \<^verbatim>\<open>main\<close> goes on to the state read after the
  update, failed or not.
\<close>

theorem transport_failures_are_caught:
  "(fails w (era w) \<longrightarrow>
      (fst (get_current_discovery_ref w) = None
      \<and> new_events w (snd (get_current_discovery_ref w)) =
          [Http GetTasks False, Log ERROR ''Error retrieving discovery tasks: %s''])
      \<and> (fst (get_scheduled_discovery_ref w) = None
      \<and> new_events w (snd (get_scheduled_discovery_ref w)) =
          [Http GetTasks False, Log ERROR ''Error retrieving discovery tasks: %s''])
      \<and> (fst (get_current_discovery_status r w) = (None, None)
      \<and> new_events w (snd (get_current_discovery_status r w)) =
          [Http GetTaskStatus False, Log ERROR ''Error retrieving discovery task status: %s''])
      \<and> (fst (get_discovery_enabled_networks w) = []
      \<and> new_events w (snd (get_discovery_enabled_networks w)) =
          [Http GetNetworks False, Log ERROR ''Error retrieving network objects: %s''])
      \<and> (fst (get_network_ref c v w) = None
      \<and> new_events w (snd (get_network_ref c v w)) =
          [Http (GetNetworkByCidr c v) False,
           Log ERROR ''Error retrieving network ref for %s: %s''])
      \<and> (fst (stop_current_discovery_task r w) = False
      \<and> new_events w (snd (stop_current_discovery_task r w)) =
          [Log INFO ''Stopping current discovery (END): %s'',
           Http (PostControl r END) False,
           Log ERROR ''Error ending current discovery: %s''])
      \<and> (fst (start_new_discovery r w) = False
      \<and> new_events w (snd (start_new_discovery r w)) =
          [Log INFO ''Starting current discovery: %s'',
           Http (PostControl r START) False,
           Log ERROR ''Error starting current discovery: %s''])
      \<and> (fst (update_current_discovery_task v r ns m pr pt w) = False
      \<and> new_events w (snd (update_current_discovery_task v r ns m pr pt w)) =
          [Log INFO ''Updating current discovery '%s' with %d networks in view '%s'.'',
           Http (PutTask r \<lparr>p_mode = m, p_network_view = v, p_networks = ns,
                             p_ping_retries = pr, p_ping_timeout = pt\<rparr>) False,
           Log ERROR ''Error updating current discovery with new networks: %s''])
      \<and> (fst (update_scheduled_discovery_task cfg r ns m pr pt w) = False
      \<and> new_events w (snd (update_scheduled_discovery_task cfg r ns m pr pt w)) =
          [Log INFO ''Overwriting scheduled discovery '%s' with %d networks in view '%s'.'',
           Http (PutTask r \<lparr>p_mode = m, p_network_view = cfg_network_view cfg, p_networks = ns,
                             p_ping_retries = pr, p_ping_timeout = pt\<rparr>) False,
           Log ERROR ''Error updating scheduled discovery with new networks: %s''])
      \<and> (new_events w (snd (scheduler_update_scheduled_discovery_task r ns m pr pt w)) =
          [Log INFO ''Overwriting scheduled discovery '%s' with %d networks.'',
           Http (PutTask r \<lparr>p_mode = m, p_network_view = ''GLOBAL'', p_networks = ns,
                             p_ping_retries = pr, p_ping_timeout = pt\<rparr>) False,
           Log ERROR ''Error updating scheduled discovery with new networks: %s''])
      \<and> (new_events w (snd (start_scheduled_discovery_task r w)) =
          [Log INFO ''Starting scheduled discovery: %s'',
           Http (PostControl r START) False,
           Log ERROR ''Error starting scheduled discovery task: %s''])
      \<and> (main_current view force w =
           Some (Inr (), print ''Could not find 'current' discovery reference. Check discovery.log for details.''
                   (snd (get_current_discovery_ref
                           (logging_info ''CURRENT_DISCOVERY_SCRIPT: Script started.'' w)))))
      \<and> (main_scheduled cfg w =
           print ''Could not find 'scheduled' discovery reference. Check discovery.log for details.''
             (snd (get_scheduled_discovery_ref w)))
      \<and> (main_scheduler cfg w =
           print ''Could not find 'scheduled' discovery reference. Check discovery.log for details.''
             (snd (get_scheduled_discovery_ref w)))
      \<and> (main_update view r w =
           Some (Inr (), print (''No networks found matching view '' @ [CHR 0x27] @ view
                            @ [CHR 0x27] @ ''. Update skipped.'')
                   (logging_info ''No networks found with Network_Discovery=True.''
                      (snd (get_discovery_enabled_networks w)))))
      \<and> (main_scheduled_update cfg r ns w =
           print ''An error occurred while updating the scheduled discovery. Please check discovery.log.''
             (snd (update_scheduled_discovery_task cfg r ns ''ICMP'' 5 1500 w))))
   \<and> fst (scheduler_update_scheduled_discovery_task r ns m pr pt w) = None
   \<and> fst (start_scheduled_discovery_task r w) = None
   \<and> (\<forall>sref w1 nets w2.
         get_scheduled_discovery_ref w = (Some sref, w1) \<and> sref \<noteq> []
         \<and> get_discovery_enabled_networks w1 = (nets, w2) \<and> nets \<noteq> [] \<longrightarrow>
         (\<exists>rest. new_events w2 (main_scheduler cfg w) =
           [Log INFO ''Overwriting scheduled discovery '%s' with %d networks.'',
            Http (PutTask sref \<lparr>p_mode = ''ICMP'', p_network_view = ''GLOBAL'', p_networks = nets,
                                 p_ping_retries = 5, p_ping_timeout = 1500\<rparr>)
                 (\<not> fails w2 (era w2)),
            if fails w2 (era w2)
            then Log ERROR ''Error updating scheduled discovery with new networks: %s''
            else Log INFO ''Scheduled discovery updated successfully. HTTP code: %d'',
            Http GetTaskStatus (\<not> fails w2 (Suc (era w2)))] @ rest))"
proof -
  have A: "(fst (get_current_discovery_ref w) = None
      \<and> new_events w (snd (get_current_discovery_ref w)) =
          [Http GetTasks False, Log ERROR ''Error retrieving discovery tasks: %s''])
      \<and> (fst (get_scheduled_discovery_ref w) = None
      \<and> new_events w (snd (get_scheduled_discovery_ref w)) =
          [Http GetTasks False, Log ERROR ''Error retrieving discovery tasks: %s''])
      \<and> (fst (get_current_discovery_status r w) = (None, None)
      \<and> new_events w (snd (get_current_discovery_status r w)) =
          [Http GetTaskStatus False, Log ERROR ''Error retrieving discovery task status: %s''])
      \<and> (fst (get_discovery_enabled_networks w) = []
      \<and> new_events w (snd (get_discovery_enabled_networks w)) =
          [Http GetNetworks False, Log ERROR ''Error retrieving network objects: %s''])
      \<and> (fst (get_network_ref c v w) = None
      \<and> new_events w (snd (get_network_ref c v w)) =
          [Http (GetNetworkByCidr c v) False,
           Log ERROR ''Error retrieving network ref for %s: %s''])
      \<and> (fst (stop_current_discovery_task r w) = False
      \<and> new_events w (snd (stop_current_discovery_task r w)) =
          [Log INFO ''Stopping current discovery (END): %s'',
           Http (PostControl r END) False,
           Log ERROR ''Error ending current discovery: %s''])
      \<and> (fst (start_new_discovery r w) = False
      \<and> new_events w (snd (start_new_discovery r w)) =
          [Log INFO ''Starting current discovery: %s'',
           Http (PostControl r START) False,
           Log ERROR ''Error starting current discovery: %s''])
      \<and> (fst (update_current_discovery_task v r ns m pr pt w) = False
      \<and> new_events w (snd (update_current_discovery_task v r ns m pr pt w)) =
          [Log INFO ''Updating current discovery '%s' with %d networks in view '%s'.'',
           Http (PutTask r \<lparr>p_mode = m, p_network_view = v, p_networks = ns,
                             p_ping_retries = pr, p_ping_timeout = pt\<rparr>) False,
           Log ERROR ''Error updating current discovery with new networks: %s''])
      \<and> (fst (update_scheduled_discovery_task cfg r ns m pr pt w) = False
      \<and> new_events w (snd (update_scheduled_discovery_task cfg r ns m pr pt w)) =
          [Log INFO ''Overwriting scheduled discovery '%s' with %d networks in view '%s'.'',
           Http (PutTask r \<lparr>p_mode = m, p_network_view = cfg_network_view cfg, p_networks = ns,
                             p_ping_retries = pr, p_ping_timeout = pt\<rparr>) False,
           Log ERROR ''Error updating scheduled discovery with new networks: %s''])
      \<and> (new_events w (snd (scheduler_update_scheduled_discovery_task r ns m pr pt w)) =
          [Log INFO ''Overwriting scheduled discovery '%s' with %d networks.'',
           Http (PutTask r \<lparr>p_mode = m, p_network_view = ''GLOBAL'', p_networks = ns,
                             p_ping_retries = pr, p_ping_timeout = pt\<rparr>) False,
           Log ERROR ''Error updating scheduled discovery with new networks: %s''])
      \<and> (new_events w (snd (start_scheduled_discovery_task r w)) =
          [Log INFO ''Starting scheduled discovery: %s'',
           Http (PostControl r START) False,
           Log ERROR ''Error starting scheduled discovery task: %s''])
      \<and> (main_current view force w =
           Some (Inr (), print ''Could not find 'current' discovery reference. Check discovery.log for details.''
                   (snd (get_current_discovery_ref
                           (logging_info ''CURRENT_DISCOVERY_SCRIPT: Script started.'' w)))))
      \<and> (main_scheduled cfg w =
           print ''Could not find 'scheduled' discovery reference. Check discovery.log for details.''
             (snd (get_scheduled_discovery_ref w)))
      \<and> (main_scheduler cfg w =
           print ''Could not find 'scheduled' discovery reference. Check discovery.log for details.''
             (snd (get_scheduled_discovery_ref w)))
      \<and> (main_update view r w =
           Some (Inr (), print (''No networks found matching view '' @ [CHR 0x27] @ view
                            @ [CHR 0x27] @ ''. Update skipped.'')
                   (logging_info ''No networks found with Network_Discovery=True.''
                      (snd (get_discovery_enabled_networks w)))))
      \<and> (main_scheduled_update cfg r ns w =
           print ''An error occurred while updating the scheduled discovery. Please check discovery.log.''
             (snd (update_scheduled_discovery_task cfg r ns ''ICMP'' 5 1500 w)))"
    if f: "fails w (era w)"
    by (simp only: failed_reads [OF f] failed_changes [OF f] failed_callers [OF f] simp_thms)
  have B: "\<exists>rest. new_events w2 (main_scheduler cfg w) =
           [Log INFO ''Overwriting scheduled discovery '%s' with %d networks.'',
            Http (PutTask sref \<lparr>p_mode = ''ICMP'', p_network_view = ''GLOBAL'', p_networks = nets,
                                 p_ping_retries = 5, p_ping_timeout = 1500\<rparr>)
                 (\<not> fails w2 (era w2)),
            if fails w2 (era w2)
            then Log ERROR ''Error updating scheduled discovery with new networks: %s''
            else Log INFO ''Scheduled discovery updated successfully. HTTP code: %d'',
            Http GetTaskStatus (\<not> fails w2 (Suc (era w2)))] @ rest"
    if "get_scheduled_discovery_ref w = (Some sref, w1)" "sref \<noteq> []"
       "get_discovery_enabled_networks w1 = (nets, w2)" "nets \<noteq> []" for sref w1 nets w2
    using that by (rule scheduler_goes_on)
  show ?thesis
    apply (rule conjI)
     apply (rule impI, erule A)
    apply (rule conjI)
     apply (rule scheduler_update_facts)
    apply (rule conjI)
     apply (rule start_scheduled_facts)
    apply (intro allI impI, elim conjE)
    apply (rule B; assumption)
    done
qed


lemma pf_fields:
  "fails put_fails_world = (\<lambda>k. k = 2)" "era put_fails_world = 0" "trace put_fails_world = []"
  "tasks put_fails_world = [sched_task]"
  "inventory put_fails_world =
          [\<lparr>n_ref = ''network/A/default'', n_cidr = ''10.0.0.0/24'', n_view = ''default'',
            n_discovery = Some ''True''\<rparr>,
           \<lparr>n_ref = ''network/C/lab'', n_cidr = ''192.168.0.0/24'', n_view = ''lab'',
            n_discovery = None\<rparr>]"
  by (simp_all add: put_fails_world_def sched_world_def demo_world_def)

lemma pf_located:
  "get_scheduled_discovery_ref put_fails_world
     = (Some ''discoverytask/scheduled'', snd (get_scheduled_discovery_ref put_fails_world))"
  by (simp add: prod_eq_iff scheduled_ref_facts found_task_def pf_fields sched_task_def
        demo_task_def)

lemma pf_networks:
  "get_discovery_enabled_networks (snd (get_scheduled_discovery_ref put_fails_world))
     = ([''network/A/default''],
        snd (get_discovery_enabled_networks (snd (get_scheduled_discovery_ref put_fails_world))))"
  by (simp add: prod_eq_iff networks_facts scheduled_ref_facts pf_fields)

text \<open>
  C6 as stated fails for the update of \<^verbatim>\<open>scheduler.py\<close>: it returns the same value on
  a platform where the request fails as on one where it succeeds, and \<^verbatim>\<open>main\<close>
  issues the state read after the failed update.
\<close>

theorem scheduler_update_gives_no_signal_counterexample:
  "fails dark_world (era dark_world) \<and> \<not> fails sched_world (era sched_world)
   \<and> fst (scheduler_update_scheduled_discovery_task ''discoverytask/scheduled''
            [''network/A/default''] ''ICMP'' 5 1500 dark_world)
     = fst (scheduler_update_scheduled_discovery_task ''discoverytask/scheduled''
            [''network/A/default''] ''ICMP'' 5 1500 sched_world)
   \<and> https (new_events put_fails_world (main_scheduler lab_config put_fails_world)) =
       [(GetTasks, True), (GetNetworks, True),
        (PutTask ''discoverytask/scheduled''
           \<lparr>p_mode = ''ICMP'', p_network_view = ''GLOBAL'', p_networks = [''network/A/default''],
            p_ping_retries = 5, p_ping_timeout = 1500\<rparr>, False),
        (GetTaskStatus, True)]"
proof -
  let ?w2 = "snd (get_discovery_enabled_networks (snd (get_scheduled_discovery_ref put_fails_world)))"
  define w3 where "w3 = (if [''network/A/default''] \<noteq> []
               then snd (scheduler_update_scheduled_discovery_task ''discoverytask/scheduled''
                           [''network/A/default''] ''ICMP'' 5 1500 ?w2)
               else logging_info ''No networks found to update for the scheduled discovery task.'' ?w2)"
  let ?s = "get_discovery_task_status ''discoverytask/scheduled'' w3"
  have s: "?s = (fst ?s, snd ?s)" by simp
  note m = main_scheduler_found [OF pf_located _ pf_networks w3_def s, of lab_config]
  have "https (trace (snd ?s)) =
       [(GetTasks, True), (GetNetworks, True),
        (PutTask ''discoverytask/scheduled''
           \<lparr>p_mode = ''ICMP'', p_network_view = ''GLOBAL'', p_networks = [''network/A/default''],
            p_ping_retries = 5, p_ping_timeout = 1500\<rparr>, False),
        (GetTaskStatus, True)]"
    by (simp add: w3_def get_discovery_task_status_def status_facts scheduler_update_facts
          networks_facts scheduled_ref_facts pf_fields status_events_def found_task_def
          sched_task_def demo_task_def)
  then have "https (trace (main_scheduler lab_config put_fails_world)) =
       [(GetTasks, True), (GetNetworks, True),
        (PutTask ''discoverytask/scheduled''
           \<lparr>p_mode = ''ICMP'', p_network_view = ''GLOBAL'', p_networks = [''network/A/default''],
            p_ping_retries = 5, p_ping_timeout = 1500\<rparr>, False),
        (GetTaskStatus, True)]"
    using m by (cases "truthy (fst (fst ?s))") (simp_all add: log_facts https_append)
  moreover have "fails dark_world (era dark_world)" "\<not> fails sched_world (era sched_world)"
    by (simp_all add: dark_world_def sched_world_def demo_world_def)
  ultimately show ?thesis
    by (simp add: new_events_def pf_fields scheduler_update_facts)
qed

theorem transport_failures_are_caught_witness:
  "fails dark_world (era dark_world)
   \<and> fst (stop_current_discovery_task ''discoverytask/current'' dark_world) = False
   \<and> fst (get_current_discovery_status ''discoverytask/current'' dark_world) = (None, None)
   \<and> new_events dark_world (snd (get_discovery_enabled_networks dark_world)) =
       [Http GetNetworks False, Log ERROR ''Error retrieving network objects: %s'']
   \<and> (\<exists>rest. https (new_events
                (snd (get_discovery_enabled_networks (snd (get_scheduled_discovery_ref put_fails_world))))
                (main_scheduler lab_config put_fails_world))
         = (PutTask ''discoverytask/scheduled''
              \<lparr>p_mode = ''ICMP'', p_network_view = ''GLOBAL'',
               p_networks = [''network/A/default''],
               p_ping_retries = 5, p_ping_timeout = 1500\<rparr>, False)
           # (GetTaskStatus, True) # rest)"
proof -
  have f: "fails dark_world (era dark_world)"
    by (simp add: dark_world_def demo_world_def)
  let ?w2 = "snd (get_discovery_enabled_networks (snd (get_scheduled_discovery_ref put_fails_world)))"
  have e: "fails put_fails_world (era ?w2)" "\<not> fails put_fails_world (Suc (era ?w2))"
    "fails ?w2 = fails put_fails_world"
    by (simp_all add: networks_facts scheduled_ref_facts pf_fields)
  have H: "get_scheduled_discovery_ref put_fails_world
              = (Some ''discoverytask/scheduled'', snd (get_scheduled_discovery_ref put_fails_world))
            \<and> ''discoverytask/scheduled'' \<noteq> []
            \<and> get_discovery_enabled_networks (snd (get_scheduled_discovery_ref put_fails_world))
              = ([''network/A/default''], ?w2)
            \<and> [''network/A/default''] \<noteq> []"
    using pf_located pf_networks by simp
  from transport_failures_are_caught
         [where w = put_fails_world and cfg = lab_config, THEN conjunct2, THEN conjunct2,
          THEN conjunct2, rule_format, OF H]
  obtain rest where "new_events ?w2 (main_scheduler lab_config put_fails_world) =
           [Log INFO ''Overwriting scheduled discovery '%s' with %d networks.'',
            Http (PutTask ''discoverytask/scheduled''
                    \<lparr>p_mode = ''ICMP'', p_network_view = ''GLOBAL'',
                     p_networks = [''network/A/default''],
                     p_ping_retries = 5, p_ping_timeout = 1500\<rparr>)
                 (\<not> fails ?w2 (era ?w2)),
            if fails ?w2 (era ?w2)
            then Log ERROR ''Error updating scheduled discovery with new networks: %s''
            else Log INFO ''Scheduled discovery updated successfully. HTTP code: %d'',
            Http GetTaskStatus (\<not> fails ?w2 (Suc (era ?w2)))] @ rest"
    by auto
  then have two: "https (new_events ?w2 (main_scheduler lab_config put_fails_world))
         = (PutTask ''discoverytask/scheduled''
              \<lparr>p_mode = ''ICMP'', p_network_view = ''GLOBAL'',
               p_networks = [''network/A/default''],
               p_ping_retries = 5, p_ping_timeout = 1500\<rparr>, False)
           # (GetTaskStatus, True) # https rest"
    by (simp add: e https_append)
  from transport_failures_are_caught
         [where w = dark_world and r = "''discoverytask/current''" and c = "[]" and v = "[]"
            and ns = "[]" and m = "[]" and pr = 0 and pt = 0 and cfg = lab_config
            and view = "[]" and force = False,
          THEN conjunct1, rule_format, OF f]
  have "fst (stop_current_discovery_task ''discoverytask/current'' dark_world) = False
   \<and> fst (get_current_discovery_status ''discoverytask/current'' dark_world) = (None, None)
   \<and> new_events dark_world (snd (get_discovery_enabled_networks dark_world)) =
       [Http GetNetworks False, Log ERROR ''Error retrieving network objects: %s'']"
    by - (elim conjE, intro conjI; assumption)
  with f two show ?thesis by blast
qed

end
